theory Spec2Isabelle
  imports Complex_Main
begin

section \<open>The strategy-learning optimizer: choosing, solving, caching, evaluating\<close>

text \<open>
  A shallow embedding of \<^verbatim>\<open>mlopt/optimizer.py\<close> and \<^verbatim>\<open>mlopt/utils.py\<close>.

  Conventions of the model.
  \<^item> Python and numpy floating-point numbers are modelled by \<^typ>\<open>real\<close>: rounding,
    infinities and NaN are outside the model. Where numpy would produce a non-finite
    value from finite inputs (a division by zero, the mean of an empty array) the model
    returns \<open>None\<close> in place of a number.
  \<^item> Every exception the code can raise is a value of type \<open>error\<close>; a function that can
    raise returns \<open>error + 'a\<close>, with \<open>Inl\<close> the exception.
  \<^item> The constants \<^verbatim>\<open>INFEAS_TOL\<close>, \<^verbatim>\<open>SUBOPT_TOL\<close> and \<^verbatim>\<open>K_MAX_STRATEGIES\<close> of
    \<^verbatim>\<open>mlopt.settings\<close> are parameters of the functions that read them.
  \<^item> The collaborators the optimizer calls (the reduced solver, its remote variant, the
    learner's prediction, the exact parametric solve, the factorization) are parameters
    of the functions that call them.
  \<^item> The instance fields the modelled methods read and write form the record
    \<open>optimizer\<close>; a method that writes a field returns the new record, also when it
    raises.
\<close>

subsection \<open>Exceptions and Python indexing\<close>

datatype error =
    ValueError
  | IndexError
  | TypeError
  | AttributeError
  | AssertionError
  | ZeroDivisionError
  | KeyError
  | RuntimeError

text \<open>\<^verbatim>\<open>xs[i]\<close> on a Python list: a negative index counts from the end, an index out of
  range raises IndexError.\<close>

definition py_index :: "'a list \<Rightarrow> int \<Rightarrow> error + 'a" where
  "py_index xs i =
     (if 0 \<le> i \<and> i < int (length xs) then Inr (xs ! nat i)
      else if i < 0 \<and> - int (length xs) \<le> i then Inr (xs ! nat (int (length xs) + i))
      else Inl IndexError)"

text \<open>\<^verbatim>\<open>[xs[l] for l in labels]\<close>: the comprehension stops at the first index that raises.\<close>

fun index_all :: "'a list \<Rightarrow> int list \<Rightarrow> error + 'a list" where
  "index_all xs [] = Inr []"
| "index_all xs (l # ls) =
     (case py_index xs l of
        Inl e \<Rightarrow> Inl e
      | Inr v \<Rightarrow> (case index_all xs ls of Inl e \<Rightarrow> Inl e | Inr vs \<Rightarrow> Inr (v # vs)))"

text \<open>\<^verbatim>\<open>xs[j]\<close> with \<open>j\<close> a non-negative loop counter or a computed position.\<close>

definition nth_err :: "'a list \<Rightarrow> nat \<Rightarrow> error + 'a" where
  "nth_err xs j = (if j < length xs then Inr (xs ! j) else Inl IndexError)"

subsection \<open>numpy: argmin and where\<close>

text \<open>\<^verbatim>\<open>np.argmin\<close> scans from the left and keeps the position of the first smallest
  element: a later element replaces the current best only when it is strictly smaller.
  On an empty array it raises ValueError.\<close>

fun argmin_scan :: "real list \<Rightarrow> nat \<Rightarrow> nat \<Rightarrow> real \<Rightarrow> nat" where
  "argmin_scan [] i bi bv = bi"
| "argmin_scan (v # vs) i bi bv =
     (if v < bv then argmin_scan vs (Suc i) i v else argmin_scan vs (Suc i) bi bv)"

definition np_argmin :: "real list \<Rightarrow> error + nat" where
  "np_argmin vs = (case vs of [] \<Rightarrow> Inl ValueError | v # ws \<Rightarrow> Inr (argmin_scan ws 1 0 v))"

text \<open>\<^verbatim>\<open>np.where(a <= tol)[0]\<close>: the positions, in increasing order, whose element is at
  most \<open>tol\<close>.\<close>

definition np_where_le :: "real list \<Rightarrow> real \<Rightarrow> nat list" where
  "np_where_le a tol = filter (\<lambda>i. a ! i \<le> tol) [0..<length a]"

subsection \<open>Data\<close>

text \<open>The dictionary returned by \<^verbatim>\<open>solve_with_strategy\<close>: the keys \<^verbatim>\<open>choose_best\<close>
  reads.\<close>

record 'x candidate_result =
  cr_x :: 'x
  cr_time :: real
  cr_infeasibility :: real
  cr_cost :: real

text \<open>The dictionary \<^verbatim>\<open>choose_best\<close> builds.\<close>

record ('x, 's) best_result =
  br_x :: 'x
  br_time :: real
  br_strategy :: 's
  br_cost :: real
  br_infeasibility :: real

text \<open>The third argument of the reduced solver. The sequential branch of
  \<^verbatim>\<open>choose_best\<close> passes the candidate's own entry \<^verbatim>\<open>cache[j]\<close>; the parallel branch
  passes the whole list \<^verbatim>\<open>cache\<close>.\<close>

datatype 'c cache_arg = CacheEntry "'c option" | CacheList "'c option list"

text \<open>The learner, as far as the optimizer reads it: \<^verbatim>\<open>options['n_best']\<close> and
  \<^verbatim>\<open>n_train\<close>.\<close>

record learner =
  n_best :: nat
  n_train :: nat

text \<open>The optimizer's fields. \<open>None\<close> is Python's \<^verbatim>\<open>None\<close>. \<open>'p\<close> is a parameter point
  (a row of the data frame), \<open>'s\<close> a strategy, \<open>'c\<close> a cache entry.\<close>

record ('p, 's, 'c) optimizer =
  learner_of :: "learner option"
  encoding :: "'s list option"
  X_train :: "'p list option"
  y_train :: "nat list option"
  obj_train :: "real list option"
  solver_cache :: "'c list option"

text \<open>Python truth value of \<^verbatim>\<open>self._solver_cache\<close>: \<^verbatim>\<open>None\<close> and the empty list are
  false.\<close>

definition cache_truthy :: "'c list option \<Rightarrow> bool" where
  "cache_truthy c = (case c of None \<Rightarrow> False | Some es \<Rightarrow> es \<noteq> [])"

subsection \<open>choose\_best\<close>

text \<open>The list \<^verbatim>\<open>cache\<close>: \<^verbatim>\<open>[None] * n_best\<close>, replaced by the labelled entries of the
  solver cache when the cache is non-empty and requested.\<close>

definition cache_list :: "'c list option \<Rightarrow> bool \<Rightarrow> nat \<Rightarrow> int list \<Rightarrow> error + 'c option list" where
  "cache_list sc use_cache nb labels =
     (if cache_truthy sc \<and> use_cache
      then (case index_all (case sc of None \<Rightarrow> [] | Some es \<Rightarrow> es) labels of
              Inl e \<Rightarrow> Inl e
            | Inr es \<Rightarrow> Inr (map Some es))
      else Inr (replicate nb None))"

text \<open>The sequential branch: \<^verbatim>\<open>for j in range(n_best)\<close>, reading \<^verbatim>\<open>strategies[j]\<close> and
  \<^verbatim>\<open>cache[j]\<close>.\<close>

fun solve_sequential ::
  "('p \<Rightarrow> 's \<Rightarrow> 'c cache_arg \<Rightarrow> 'x candidate_result) \<Rightarrow> 'p \<Rightarrow> 's list \<Rightarrow> 'c option list
     \<Rightarrow> nat list \<Rightarrow> error + 'x candidate_result list" where
  "solve_sequential sv p strategies cache [] = Inr []"
| "solve_sequential sv p strategies cache (j # js) =
     (case nth_err strategies j of
        Inl e \<Rightarrow> Inl e
      | Inr s \<Rightarrow>
         (case nth_err cache j of
            Inl e \<Rightarrow> Inl e
          | Inr c \<Rightarrow>
             (case solve_sequential sv p strategies cache js of
                Inl e \<Rightarrow> Inl e
              | Inr rs \<Rightarrow> Inr (sv p s (CacheEntry c) # rs))))"

text \<open>The parallel branch: one remote call per strategy, each given the whole list
  \<^verbatim>\<open>cache\<close>, joined in order.\<close>

definition solve_parallel ::
  "('p \<Rightarrow> 's \<Rightarrow> 'c cache_arg \<Rightarrow> 'x candidate_result) \<Rightarrow> 'p \<Rightarrow> 's list \<Rightarrow> 'c option list
     \<Rightarrow> 'x candidate_result list" where
  "solve_parallel sv_ray p strategies cache = map (\<lambda>s. sv_ray p s (CacheList cache)) strategies"

text \<open>Picking the best of the candidates (\<^verbatim>\<open>idx_pick\<close>).\<close>

definition idx_pick :: "real \<Rightarrow> real list \<Rightarrow> real list \<Rightarrow> error + nat" where
  "idx_pick INFEAS_TOL infeas cost =
     (let idx_filter = np_where_le infeas INFEAS_TOL
      in if length idx_filter > 0
         then (case np_argmin (map (\<lambda>i. cost ! i) idx_filter) of
                 Inl e \<Rightarrow> Inl e
               | Inr k \<Rightarrow> Inr (idx_filter ! k))
         else np_argmin infeas)"

text \<open>The candidate results of one call, in rank order.\<close>

definition candidate_results ::
  "('p \<Rightarrow> 's \<Rightarrow> 'c cache_arg \<Rightarrow> 'x candidate_result)
     \<Rightarrow> ('p \<Rightarrow> 's \<Rightarrow> 'c cache_arg \<Rightarrow> 'x candidate_result)
     \<Rightarrow> nat \<Rightarrow> 'p \<Rightarrow> 's list \<Rightarrow> 'c option list \<Rightarrow> bool
     \<Rightarrow> error + 'x candidate_result list" where
  "candidate_results sv sv_ray nb p strategies cache parallel =
     (if parallel then Inr (solve_parallel sv_ray p strategies cache)
      else solve_sequential sv p strategies cache [0..<nb])"

definition pick_result ::
  "real \<Rightarrow> 's list \<Rightarrow> 'x candidate_result list \<Rightarrow> error + ('x, 's) best_result" where
  "pick_result INFEAS_TOL strategies results =
     (let x = map cr_x results;
          time = map cr_time results;
          infeas = map cr_infeasibility results;
          cost = map cr_cost results
      in case idx_pick INFEAS_TOL infeas cost of
           Inl e \<Rightarrow> Inl e
         | Inr i \<Rightarrow>
            (case nth_err x i of
               Inl e \<Rightarrow> Inl e
             | Inr xi \<Rightarrow>
                (case nth_err strategies i of
                   Inl e \<Rightarrow> Inl e
                 | Inr si \<Rightarrow>
                    Inr \<lparr> br_x = xi, br_time = sum_list time, br_strategy = si,
                          br_cost = cost ! i, br_infeasibility = infeas ! i \<rparr>)))"

text \<open>The list \<^verbatim>\<open>strategies\<close>: \<^verbatim>\<open>[self.encoding[l] for l in labels]\<close>. Without labels the
  encoding is never subscripted; subscripting \<^verbatim>\<open>None\<close> raises TypeError.\<close>

definition strategies_of :: "'s list option \<Rightarrow> int list \<Rightarrow> error + 's list" where
  "strategies_of encoding_field labels =
     (case encoding_field of
        None \<Rightarrow> (if labels = [] then Inr [] else Inl TypeError)
      | Some enc \<Rightarrow> index_all enc labels)"

text \<open>\<^verbatim>\<open>Optimizer.choose_best(labels, parallel, use_cache)\<close>, called with the problem
  populated with the point \<open>p\<close>. \<open>sv\<close> is \<^verbatim>\<open>solve_with_strategy\<close>, \<open>sv_ray\<close> is
  \<^verbatim>\<open>solve_with_strategy_ray\<close>.\<close>

definition choose_best ::
  "real
     \<Rightarrow> ('p \<Rightarrow> 's \<Rightarrow> 'c cache_arg \<Rightarrow> 'x candidate_result)
     \<Rightarrow> ('p \<Rightarrow> 's \<Rightarrow> 'c cache_arg \<Rightarrow> 'x candidate_result)
     \<Rightarrow> ('p, 's, 'c) optimizer \<Rightarrow> 'p \<Rightarrow> int list \<Rightarrow> bool \<Rightarrow> bool
     \<Rightarrow> error + ('x, 's) best_result" where
  "choose_best INFEAS_TOL sv sv_ray opt p labels parallel use_cache =
     (case learner_of opt of
        None \<Rightarrow> Inl AttributeError
      | Some lr \<Rightarrow>
         (case strategies_of (encoding opt) labels of
            Inl e \<Rightarrow> Inl e
          | Inr strategies \<Rightarrow>
             (case cache_list (solver_cache opt) use_cache (n_best lr) labels of
                Inl e \<Rightarrow> Inl e
              | Inr cache \<Rightarrow>
                 (case candidate_results sv sv_ray (n_best lr) p strategies cache parallel of
                    Inl e \<Rightarrow> Inl e
                  | Inr results \<Rightarrow> pick_result INFEAS_TOL strategies results))))"

text \<open>The position a Python index in range denotes.\<close>

definition py_pos :: "nat \<Rightarrow> int \<Rightarrow> nat" where
  "py_pos n l = nat (if l < 0 then int n + l else l)"

text \<open>The labels a list of \<open>n\<close> entries can be indexed with, and the labels the solver
  cache can be indexed with when \<^verbatim>\<open>choose_best\<close> reads it.\<close>

definition labels_in_range :: "nat \<Rightarrow> int list \<Rightarrow> bool" where
  "labels_in_range n labels = list_all (\<lambda>l. - int n \<le> l \<and> l < int n) labels"

definition cache_in_range :: "'c list option \<Rightarrow> bool \<Rightarrow> int list \<Rightarrow> bool" where
  "cache_in_range sc use_cache labels =
     (if cache_truthy sc \<and> use_cache
      then labels_in_range (length (case sc of None \<Rightarrow> [] | Some es \<Rightarrow> es)) labels
      else True)"

text \<open>The solve of the candidate of rank \<open>j\<close>, written from the labels: its strategy is
  the encoding's entry for label \<open>j\<close>; the list \<^verbatim>\<open>cache\<close> holds the solver cache's entry for
  each label when the cache is non-empty and requested, and \<^verbatim>\<open>None\<close> for each label
  otherwise; the sequential solve is given the candidate's entry, the remote solve the
  whole list.\<close>

definition ranked_outcome ::
  "('p \<Rightarrow> 's \<Rightarrow> 'c cache_arg \<Rightarrow> 'x candidate_result)
     \<Rightarrow> ('p \<Rightarrow> 's \<Rightarrow> 'c cache_arg \<Rightarrow> 'x candidate_result)
     \<Rightarrow> 's list \<Rightarrow> 'c list option \<Rightarrow> 'p \<Rightarrow> int list \<Rightarrow> bool \<Rightarrow> bool \<Rightarrow> nat
     \<Rightarrow> 'x candidate_result" where
  "ranked_outcome sv sv_ray enc sc p labels parallel use_cache j =
     (let strategy = enc ! py_pos (length enc) (labels ! j);
          es = (case sc of None \<Rightarrow> [] | Some es \<Rightarrow> es);
          cache = (if es \<noteq> [] \<and> use_cache
                   then map (\<lambda>l. Some (es ! py_pos (length es) l)) labels
                   else replicate (length labels) None)
      in if parallel then sv_ray p strategy (CacheList cache)
         else sv p strategy (CacheEntry (cache ! j)))"

subsection \<open>solve\<close>

text \<open>The argument \<^verbatim>\<open>X\<close>: a Series is one point (it is turned into a frame of one
  row), a DataFrame is a list of rows.\<close>

datatype 'p frame_input = Series 'p | DataFrame "'p list"

definition rows_of :: "'p frame_input \<Rightarrow> 'p list" where
  "rows_of X = (case X of Series p \<Rightarrow> [p] | DataFrame ps \<Rightarrow> ps)"

text \<open>A result dictionary after \<^verbatim>\<open>solve\<close> has added \<^verbatim>\<open>pred_time\<close> and
  \<^verbatim>\<open>solve_time\<close> and replaced \<^verbatim>\<open>time\<close> by their sum.\<close>

record ('x, 's) timed_result =
  tr_x :: 'x
  tr_time :: real
  tr_strategy :: 's
  tr_cost :: real
  tr_infeasibility :: real
  tr_pred_time :: real
  tr_solve_time :: real

definition append_predict_time :: "real \<Rightarrow> ('x, 's) best_result \<Rightarrow> ('x, 's) timed_result" where
  "append_predict_time t_predict r =
     \<lparr> tr_x = br_x r, tr_time = t_predict + br_time r, tr_strategy = br_strategy r,
       tr_cost = br_cost r, tr_infeasibility = br_infeasibility r,
       tr_pred_time = t_predict, tr_solve_time = br_time r \<rparr>"

text \<open>What \<^verbatim>\<open>solve\<close> returns: one dictionary, or a list of dictionaries.\<close>

datatype ('x, 's) solve_output =
    Single "('x, 's) timed_result"
  | Many "('x, 's) timed_result list"

text \<open>The loop \<^verbatim>\<open>for i in range(n_points)\<close>: the problem is populated with row \<open>i\<close> and
  \<^verbatim>\<open>choose_best\<close> is called on row \<open>i\<close> of \<^verbatim>\<open>classes\<close>, with \<^verbatim>\<open>parallel\<close> left at its
  default \<^verbatim>\<open>False\<close>.\<close>

fun solve_points ::
  "real
     \<Rightarrow> ('p \<Rightarrow> 's \<Rightarrow> 'c cache_arg \<Rightarrow> 'x candidate_result)
     \<Rightarrow> ('p \<Rightarrow> 's \<Rightarrow> 'c cache_arg \<Rightarrow> 'x candidate_result)
     \<Rightarrow> ('p, 's, 'c) optimizer \<Rightarrow> bool \<Rightarrow> int list list \<Rightarrow> 'p list \<Rightarrow> nat
     \<Rightarrow> error + ('x, 's) best_result list" where
  "solve_points INFEAS_TOL sv sv_ray opt use_cache classes [] i = Inr []"
| "solve_points INFEAS_TOL sv sv_ray opt use_cache classes (p # ps) i =
     (case nth_err classes i of
        Inl e \<Rightarrow> Inl e
      | Inr labels \<Rightarrow>
         (case choose_best INFEAS_TOL sv sv_ray opt p labels False use_cache of
            Inl e \<Rightarrow> Inl e
          | Inr r \<Rightarrow>
             (case solve_points INFEAS_TOL sv sv_ray opt use_cache classes ps (Suc i) of
                Inl e \<Rightarrow> Inl e
              | Inr rs \<Rightarrow> Inr (r # rs))))"

text \<open>\<^verbatim>\<open>Optimizer.solve(X, use_cache)\<close>. \<open>predict\<close> is the learner's \<^verbatim>\<open>predict\<close>, giving
  the rows of \<^verbatim>\<open>classes\<close>; \<open>t_elapsed\<close> is the measured \<^verbatim>\<open>time() - t_start\<close>. The
  \<^verbatim>\<open>verbose\<close> flag only sets a solver option and is left out.\<close>

definition solve ::
  "real
     \<Rightarrow> ('p \<Rightarrow> 's \<Rightarrow> 'c cache_arg \<Rightarrow> 'x candidate_result)
     \<Rightarrow> ('p \<Rightarrow> 's \<Rightarrow> 'c cache_arg \<Rightarrow> 'x candidate_result)
     \<Rightarrow> ('p list \<Rightarrow> int list list) \<Rightarrow> real
     \<Rightarrow> ('p, 's, 'c) optimizer \<Rightarrow> 'p frame_input \<Rightarrow> bool
     \<Rightarrow> error + ('x, 's) solve_output" where
  "solve INFEAS_TOL sv sv_ray predict t_elapsed opt X use_cache =
     (let rows = rows_of X; n_points = length rows
      in if use_cache \<and> \<not> cache_truthy (solver_cache opt) then Inl ValueError
         else (case learner_of opt of
                 None \<Rightarrow> Inl AttributeError
               | Some lr \<Rightarrow>
                  (let classes = predict rows
                   in if n_points = 0 then Inl ZeroDivisionError
                      else (let t_predict = t_elapsed / real n_points
                            in case solve_points INFEAS_TOL sv sv_ray opt use_cache classes rows 0 of
                                 Inl e \<Rightarrow> Inl e
                               | Inr results \<Rightarrow>
                                  (let timed = map (append_predict_time t_predict) results
                                   in case timed of
                                        [r] \<Rightarrow> Inr (Single r)
                                      | _ \<Rightarrow> Inr (Many timed))))))"

subsection \<open>utils: suboptimality and accuracy\<close>

text \<open>A result of the exact solve (\<^verbatim>\<open>solve_parametric\<close>). The key \<^verbatim>\<open>strategy\<close> is absent
  (\<open>None\<close>) when the point is infeasible.\<close>

record 's exact_result =
  er_strategy :: "'s option"
  er_cost :: real
  er_time :: real
  er_status :: string

definition suboptimality :: "real \<Rightarrow> real \<Rightarrow> real" where
  "suboptimality cost_pred cost_test = (cost_pred - cost_test) / (\<bar>cost_test\<bar> + 1 / 10 ^ 10)"

text \<open>numpy division of floats: a zero divisor gives a non-finite value, not an
  exception.\<close>

definition np_div :: "real \<Rightarrow> real \<Rightarrow> real option" where
  "np_div a b = (if b = 0 then None else Some (a / b))"

text \<open>The body of the loop of \<^verbatim>\<open>accuracy\<close> for one point: the entry of \<^verbatim>\<open>idx_correct\<close>.\<close>

definition point_correct ::
  "real \<Rightarrow> real \<Rightarrow> ('x, 's) timed_result \<Rightarrow> 's exact_result \<Rightarrow> error + nat" where
  "point_correct INFEAS_TOL SUBOPT_TOL r_pred r_test =
     (case er_strategy r_test of
        None \<Rightarrow> Inl KeyError
      | Some s_test \<Rightarrow>
         Inr (if tr_strategy r_pred = s_test then 1
              else if tr_infeasibility r_pred \<le> INFEAS_TOL
                   then (if suboptimality (tr_cost r_pred) (er_cost r_test) \<le> SUBOPT_TOL
                         then 1 else 0)
                   else 0))"

fun idx_correct_loop ::
  "real \<Rightarrow> real \<Rightarrow> (('x, 's) timed_result \<times> 's exact_result) list \<Rightarrow> error + nat list" where
  "idx_correct_loop INFEAS_TOL SUBOPT_TOL [] = Inr []"
| "idx_correct_loop INFEAS_TOL SUBOPT_TOL ((r_pred, r_test) # rest) =
     (case point_correct INFEAS_TOL SUBOPT_TOL r_pred r_test of
        Inl e \<Rightarrow> Inl e
      | Inr c \<Rightarrow>
         (case idx_correct_loop INFEAS_TOL SUBOPT_TOL rest of
            Inl e \<Rightarrow> Inl e
          | Inr cs \<Rightarrow> Inr (c # cs)))"

text \<open>\<^verbatim>\<open>accuracy(results_pred, results_test)\<close>: the fraction and the vector
  \<^verbatim>\<open>idx_correct\<close>. With no points the fraction is \<^verbatim>\<open>0 / 0\<close>, not a number.\<close>

definition accuracy ::
  "real \<Rightarrow> real \<Rightarrow> ('x, 's) timed_result list \<Rightarrow> 's exact_result list
     \<Rightarrow> error + (real option \<times> nat list)" where
  "accuracy INFEAS_TOL SUBOPT_TOL results_pred results_test =
     (let n_points = length results_pred
      in if n_points \<noteq> length results_test then Inl AssertionError
         else (case idx_correct_loop INFEAS_TOL SUBOPT_TOL (zip results_pred results_test) of
                 Inl e \<Rightarrow> Inl e
               | Inr idx_correct \<Rightarrow>
                  Inr (np_div (real (sum_list idx_correct)) (real n_points), idx_correct)))"

text \<open>The claimed criterion for one point, in the words of the specification: the
  strategies agree, or the prediction is feasible within the tolerance and its
  suboptimality is within the tolerance.\<close>

definition spec_correct ::
  "real \<Rightarrow> real \<Rightarrow> ('x, 's) timed_result \<Rightarrow> 's exact_result \<Rightarrow> bool" where
  "spec_correct INFEAS_TOL SUBOPT_TOL r_pred r_test \<longleftrightarrow>
     Some (tr_strategy r_pred) = er_strategy r_test
   \<or> (tr_infeasibility r_pred \<le> INFEAS_TOL
      \<and> (tr_cost r_pred - er_cost r_test) / (\<bar>er_cost r_test\<bar> + 1 / 10 ^ 10) \<le> SUBOPT_TOL)"

subsection \<open>performance\<close>

text \<open>\<^verbatim>\<open>np.mean\<close> (not a number on an empty array) and \<^verbatim>\<open>np.max\<close> (ValueError on an
  empty array).\<close>

definition np_mean :: "real list \<Rightarrow> real option" where
  "np_mean xs = np_div (sum_list xs) (real (length xs))"

definition np_max :: "real list \<Rightarrow> error + real" where
  "np_max xs = (case xs of [] \<Rightarrow> Inl ValueError | v # vs \<Rightarrow> Inr (fold max vs v))"

text \<open>Division of two numpy results, either of which may already be non-finite.\<close>

definition np_div_opt :: "real option \<Rightarrow> real option \<Rightarrow> real option" where
  "np_div_opt a b =
     (case a of None \<Rightarrow> None | Some u \<Rightarrow> (case b of None \<Rightarrow> None | Some v \<Rightarrow> np_div u v))"

text \<open>\<^verbatim>\<open>[xs[i] for i in range(n)]\<close>.\<close>

definition first_n :: "'a list \<Rightarrow> nat \<Rightarrow> error + 'a list" where
  "first_n xs n = (if n \<le> length xs then Inr (take n xs) else Inl IndexError)"

text \<open>The entries of the two frames \<^verbatim>\<open>performance\<close> returns that concern accuracy,
  suboptimality and time; the remaining entries (names, counts, means and standard
  deviations of the same vectors) are left out.\<close>

record perf_summary =
  ps_n_test :: nat
  ps_n_correct :: nat
  ps_accuracy :: "real option"
  ps_mean_time_pred :: "real option"
  ps_mean_time_full :: "real option"
  ps_avg_time_improv :: "real option"
  ps_max_time_improv :: "real option"

record perf_detail =
  pd_correct :: "nat list"
  pd_subopt :: "real list"
  pd_time_pred :: "real list"
  pd_time_full :: "real list"
  pd_time_improvement :: "real option list"

text \<open>\<^verbatim>\<open>Optimizer.performance(theta, parallel, use_cache)\<close>. \<open>solve_parametric\<close> is the
  exact solve of every test point. Iterating over the single dictionary that \<^verbatim>\<open>solve\<close>
  returns for one point yields its keys, and subscripting a key raises TypeError.\<close>

definition performance ::
  "real \<Rightarrow> real
     \<Rightarrow> ('p \<Rightarrow> 's \<Rightarrow> 'c cache_arg \<Rightarrow> 'x candidate_result)
     \<Rightarrow> ('p \<Rightarrow> 's \<Rightarrow> 'c cache_arg \<Rightarrow> 'x candidate_result)
     \<Rightarrow> ('p list \<Rightarrow> int list list) \<Rightarrow> real
     \<Rightarrow> ('p list \<Rightarrow> 's exact_result list)
     \<Rightarrow> ('p, 's, 'c) optimizer \<Rightarrow> 'p list \<Rightarrow> bool
     \<Rightarrow> error + (perf_summary \<times> perf_detail)" where
  "performance INFEAS_TOL SUBOPT_TOL sv sv_ray predict t_elapsed solve_parametric opt theta
       use_cache =
     (let results_test = solve_parametric theta;
          time_test = map er_time results_test;
          cost_test = map er_cost results_test
      in case solve INFEAS_TOL sv sv_ray predict t_elapsed opt (DataFrame theta) use_cache of
           Inl e \<Rightarrow> Inl e
         | Inr (Single r) \<Rightarrow> Inl TypeError
         | Inr (Many results_pred) \<Rightarrow>
            (let time_pred = map tr_time results_pred;
                 cost_pred = map tr_cost results_pred;
                 n_test = length theta
             in case first_n time_test n_test of
                  Inl e \<Rightarrow> Inl e
                | Inr tt \<Rightarrow>
               (case first_n time_pred n_test of
                  Inl e \<Rightarrow> Inl e
                | Inr tp \<Rightarrow>
               (case first_n cost_pred n_test of
                  Inl e \<Rightarrow> Inl e
                | Inr cp \<Rightarrow>
               (case first_n cost_test n_test of
                  Inl e \<Rightarrow> Inl e
                | Inr ct \<Rightarrow>
               (let time_comp = map (\<lambda>(a, b). np_div a b) (zip tt tp);
                    subopt = map (\<lambda>(a, b). suboptimality a b) (zip cp ct)
                in case accuracy INFEAS_TOL SUBOPT_TOL results_pred results_test of
                     Inl e \<Rightarrow> Inl e
                   | Inr (test_accuracy, idx_correct) \<Rightarrow>
                  (let avg_time_improv = np_div_opt (np_mean time_test) (np_mean time_pred)
                   in case np_max time_test of
                        Inl e \<Rightarrow> Inl e
                      | Inr max_test \<Rightarrow>
                     (case np_max time_pred of
                        Inl e \<Rightarrow> Inl e
                      | Inr max_pred \<Rightarrow>
                         Inr (\<lparr> ps_n_test = n_test,
                                ps_n_correct = sum_list idx_correct,
                                ps_accuracy = map_option (\<lambda>a. 100 * a) test_accuracy,
                                ps_mean_time_pred = np_mean time_pred,
                                ps_mean_time_full = np_mean time_test,
                                ps_avg_time_improv = avg_time_improv,
                                ps_max_time_improv = np_div max_test max_pred \<rparr>,
                              \<lparr> pd_correct = idx_correct,
                                pd_subopt = subopt,
                                pd_time_pred = time_pred,
                                pd_time_full = time_test,
                                pd_time_improvement = time_comp \<rparr>)))))))))"

text \<open>The headline metrics in the words of the specification: the mean and the maximum,
  over the test points, of the ratio of the true solve time to the predicted total
  time.\<close>

definition claimed_avg_speedup :: "real list \<Rightarrow> real list \<Rightarrow> real option" where
  "claimed_avg_speedup time_test time_pred =
     np_mean (map (\<lambda>(a, b). a / b) (zip time_test time_pred))"

definition claimed_max_speedup :: "real list \<Rightarrow> real list \<Rightarrow> error + real" where
  "claimed_max_speedup time_test time_pred =
     np_max (map (\<lambda>(a, b). a / b) (zip time_test time_pred))"

subsection \<open>cache\_factors\<close>

text \<open>An entry of the solver cache.\<close>

record ('f, 'd) cache_entry =
  factors :: 'f
  inverse_data :: 'd
  chain :: 'd

text \<open>\<^verbatim>\<open>np.where(self.y_train == strategy_idx)[0]\<close>; comparing \<^verbatim>\<open>None\<close> with a number
  is false, which gives no position.\<close>

definition idx_param :: "nat list option \<Rightarrow> nat \<Rightarrow> nat list" where
  "idx_param y k =
     (case y of None \<Rightarrow> [] | Some ys \<Rightarrow> filter (\<lambda>i. ys ! i = k) [0..<length ys])"

text \<open>The parameter point giving strategy \<open>k\<close>: \<^verbatim>\<open>self.X_train.iloc[idx_param[0]]\<close>. The
  attribute \<^verbatim>\<open>iloc\<close> is read before the subscript \<^verbatim>\<open>idx_param[0]\<close> is evaluated.\<close>

definition representative :: "('p, 's, 'c) optimizer \<Rightarrow> nat \<Rightarrow> error + 'p" where
  "representative opt k =
     (case X_train opt of
        None \<Rightarrow> Inl AttributeError
      | Some X \<Rightarrow>
         (case nth_err (idx_param (y_train opt) k) 0 of
            Inl e \<Rightarrow> Inl e
          | Inr i \<Rightarrow> nth_err X i))"

text \<open>One turn of the loop of \<^verbatim>\<open>cache_factors\<close>. \<open>problem_data\<close> populates the
  problem, builds the reduced problem of the strategy and returns its KKT matrix with the
  inverse data and the chain; \<open>factorized\<close> is scipy's factorization, which raises on a
  matrix it cannot factorize.\<close>

definition cache_for ::
  "('p \<Rightarrow> 's \<Rightarrow> 'm \<times> 'd \<times> 'd) \<Rightarrow> ('m \<Rightarrow> error + 'f)
     \<Rightarrow> ('p, 's, ('f, 'd) cache_entry) optimizer \<Rightarrow> 's list \<Rightarrow> nat
     \<Rightarrow> error + ('f, 'd) cache_entry" where
  "cache_for problem_data factorized opt enc k =
     (case nth_err enc k of
        Inl e \<Rightarrow> Inl e
      | Inr strategy \<Rightarrow>
         (case representative opt k of
            Inl e \<Rightarrow> Inl e
          | Inr theta \<Rightarrow>
             (case problem_data theta strategy of
                (KKT_mat, full_chain, inv_data) \<Rightarrow>
                  (case factorized KKT_mat of
                     Inl e \<Rightarrow> Inl e
                   | Inr solve_kkt \<Rightarrow>
                      Inr \<lparr> factors = solve_kkt, inverse_data = inv_data,
                            chain = full_chain \<rparr>))))"

text \<open>The loop \<^verbatim>\<open>for strategy_idx in range(self.n_strategies)\<close>. An exception leaves the
  loop and the method; the entries appended so far stay in \<^verbatim>\<open>self._solver_cache\<close>.\<close>

fun cache_loop ::
  "('p \<Rightarrow> 's \<Rightarrow> 'm \<times> 'd \<times> 'd) \<Rightarrow> ('m \<Rightarrow> error + 'f)
     \<Rightarrow> 's list \<Rightarrow> ('p, 's, ('f, 'd) cache_entry) optimizer \<Rightarrow> nat list
     \<Rightarrow> error option \<times> ('p, 's, ('f, 'd) cache_entry) optimizer" where
  "cache_loop problem_data factorized enc opt [] = (None, opt)"
| "cache_loop problem_data factorized enc opt (k # ks) =
     (case cache_for problem_data factorized opt enc k of
        Inl e \<Rightarrow> (Some e, opt)
      | Inr cache \<Rightarrow>
         cache_loop problem_data factorized enc
           (opt\<lparr>solver_cache :=
                  Some ((case solver_cache opt of None \<Rightarrow> [] | Some es \<Rightarrow> es) @ [cache])\<rparr>)
           ks)"

text \<open>\<^verbatim>\<open>Optimizer.cache_factors()\<close>. The property \<^verbatim>\<open>n_strategies\<close> raises ValueError
  when there is no encoding.\<close>

definition cache_factors ::
  "('p \<Rightarrow> 's \<Rightarrow> 'm \<times> 'd \<times> 'd) \<Rightarrow> ('m \<Rightarrow> error + 'f)
     \<Rightarrow> ('p, 's, ('f, 'd) cache_entry) optimizer
     \<Rightarrow> error option \<times> ('p, 's, ('f, 'd) cache_entry) optimizer" where
  "cache_factors problem_data factorized opt =
     (let opt1 = opt\<lparr>solver_cache := Some []\<rparr>
      in case encoding opt1 of
           None \<Rightarrow> (Some ValueError, opt1)
         | Some enc \<Rightarrow> cache_loop problem_data factorized enc opt1 [0..<length enc])"

subsection \<open>get\_samples and train\<close>

definition samples_present :: "('p, 's, 'c) optimizer \<Rightarrow> bool" where
  "samples_present opt \<longleftrightarrow> X_train opt \<noteq> None \<and> y_train opt \<noteq> None \<and> encoding opt \<noteq> None"

text \<open>The collaborators of training that are not part of the modelled files:
  \<^verbatim>\<open>solve_parametric\<close> (exact solve of every point), \<^verbatim>\<open>SOLUTION_PRESENT\<close> (the
  statuses that carry a solution), \<^verbatim>\<open>encode_strategies\<close>, the sampler behind
  \<^verbatim>\<open>sample\<close>, the strategy filter, the number of columns of the data frames and the
  number of features \<^verbatim>\<open>n_features\<close> counts on a first row, the learner's constructor and
  training (given \<^verbatim>\<open>n_input\<close>, \<^verbatim>\<open>n_classes\<close> and the training data), and \<^verbatim>\<open>is_qp\<close>.\<close>

record ('p, 's, 'g) training_env =
  env_solve_parametric :: "'p list \<Rightarrow> 's exact_result list"
  env_SOLUTION_PRESENT :: "string list"
  env_encode_strategies :: "'s list \<Rightarrow> nat list \<times> 's list"
  env_sample :: "'g \<Rightarrow> 'p list \<times> nat list \<times> 's list"
  env_filter :: "'p list option \<Rightarrow> nat list option \<Rightarrow> real list \<Rightarrow> 's list
                   \<Rightarrow> nat list \<times> 's list"
  env_K_MAX_STRATEGIES :: nat
  env_n_columns :: nat
  env_row_features :: "'p \<Rightarrow> nat"
  env_train_learner :: "nat \<Rightarrow> nat \<Rightarrow> 'p list \<Rightarrow> nat list option \<Rightarrow> learner"
  env_is_qp :: bool

text \<open>The branch of \<^verbatim>\<open>get_samples\<close> for given data \<^verbatim>\<open>X\<close>. The fields are reset before the
  points are solved, so they stay reset when the method raises. Every result has a
  strategy where \<^verbatim>\<open>train_strategies\<close> is built. The sampler's Good-Turing estimate is a
  field of the sampler and is left out.\<close>

definition use_new_data ::
  "('p, 's, 'g) training_env \<Rightarrow> ('p, 's, 'c) optimizer \<Rightarrow> 'p list
     \<Rightarrow> error option \<times> ('p, 's, 'c) optimizer" where
  "use_new_data env opt X =
     (let opt1 = opt\<lparr>X_train := Some X, y_train := None, encoding := None\<rparr>;
          results = env_solve_parametric env X;
          not_feasible_points = filter (\<lambda>(i, x). er_strategy x = None)
                                  (zip [0..<length results] results)
      in if not_feasible_points \<noteq> [] then (Some ValueError, opt1)
         else (let opt2 = opt1\<lparr>obj_train := Some (map er_cost results)\<rparr>;
                   train_strategies = List.map_filter er_strategy results
               in if \<not> list_all (\<lambda>r. List.member (env_SOLUTION_PRESENT env) (er_status r)) results
                  then (Some AssertionError, opt2)
                  else (case env_encode_strategies env train_strategies of
                          (y, enc) \<Rightarrow>
                            (None, opt2\<lparr>y_train := Some y, encoding := Some enc\<rparr>))))"

text \<open>\<^verbatim>\<open>Optimizer.get_samples(X, sampling_fn, parallel, filter_strategies)\<close>. The
  attribute \<^verbatim>\<open>obj_train\<close> exists only once it has been assigned (\<open>None\<close> is the attribute
  not being there): \<^verbatim>\<open>filter_strategies\<close> reads it and raises AttributeError when
  the samples came from \<^verbatim>\<open>sample\<close>, which does not assign it.\<close>

definition get_samples ::
  "('p, 's, 'g) training_env \<Rightarrow> ('p, 's, 'c) optimizer \<Rightarrow> 'p list option \<Rightarrow> 'g option \<Rightarrow> bool
     \<Rightarrow> error option \<times> ('p, 's, 'c) optimizer" where
  "get_samples env opt X sampling_fn filter_strategies =
     (if X = None \<and> sampling_fn = None \<and> \<not> samples_present opt then (Some ValueError, opt)
      else if X \<noteq> None \<and> sampling_fn \<noteq> None then (Some ValueError, opt)
      else
        (case (case X of
                 Some xs \<Rightarrow> use_new_data env opt xs
               | None \<Rightarrow>
                  (case sampling_fn of
                     Some g \<Rightarrow>
                       (if \<not> samples_present opt
                        then (case env_sample env g of
                                (xs, y, enc) \<Rightarrow>
                                  (None, opt\<lparr>X_train := Some xs, y_train := Some y,
                                              encoding := Some enc\<rparr>))
                        else (None, opt))
                   | None \<Rightarrow> (None, opt))) of
           (Some e, opt1) \<Rightarrow> (Some e, opt1)
         | (None, opt1) \<Rightarrow>
            (case encoding opt1 of
               None \<Rightarrow> (Some TypeError, opt1)
             | Some enc \<Rightarrow>
                (if length enc > env_K_MAX_STRATEGIES env \<and> filter_strategies
                 then (case obj_train opt1 of
                         None \<Rightarrow> (Some AttributeError, opt1)
                       | Some obj \<Rightarrow>
                          (case env_filter env (X_train opt1) (y_train opt1) obj enc of
                             (y, enc') \<Rightarrow>
                               (None, opt1\<lparr>y_train := Some y, encoding := Some enc'\<rparr>)))
                 else (None, opt1)))))"

text \<open>\<^verbatim>\<open>n_features(df)\<close> of \<^verbatim>\<open>mlopt/utils.py\<close>: the loop over the columns reads the first
  row of each column, \<^verbatim>\<open>df[c].iloc[0]\<close>, which raises IndexError on a frame without rows;
  on a frame without columns the loop does nothing.\<close>

definition n_features :: "nat \<Rightarrow> ('p \<Rightarrow> nat) \<Rightarrow> 'p list \<Rightarrow> error + nat" where
  "n_features n_columns row_features df =
     (if n_columns = 0 then Inr 0
      else (case df of [] \<Rightarrow> Inl IndexError | row # rest \<Rightarrow> Inr (row_features row)))"

text \<open>\<^verbatim>\<open>Optimizer.train(X, sampling_fn, parallel, learner, filter_strategies)\<close>: the
  samples, then the learner (its arguments \<^verbatim>\<open>n_features(self.X_train)\<close> and
  \<^verbatim>\<open>len(self.encoding)\<close> are evaluated in this order), then the cache of factors when
  the problem is a QP.\<close>

definition train ::
  "('p, 's, 'g) training_env \<Rightarrow> ('p \<Rightarrow> 's \<Rightarrow> 'm \<times> 'd \<times> 'd) \<Rightarrow> ('m \<Rightarrow> error + 'f)
     \<Rightarrow> ('p, 's, ('f, 'd) cache_entry) optimizer \<Rightarrow> 'p list option \<Rightarrow> 'g option \<Rightarrow> bool
     \<Rightarrow> error option \<times> ('p, 's, ('f, 'd) cache_entry) optimizer" where
  "train env problem_data factorized opt X sampling_fn filter_strategies =
     (case get_samples env opt X sampling_fn filter_strategies of
        (Some e, opt1) \<Rightarrow> (Some e, opt1)
      | (None, opt1) \<Rightarrow>
         (case X_train opt1 of
            None \<Rightarrow> (Some AttributeError, opt1)
          | Some X_tr \<Rightarrow>
             (case n_features (env_n_columns env) (env_row_features env) X_tr of
                Inl e \<Rightarrow> (Some e, opt1)
              | Inr n_input \<Rightarrow>
                 (case encoding opt1 of
                    None \<Rightarrow> (Some TypeError, opt1)
                  | Some enc \<Rightarrow>
                     (let opt2 = opt1\<lparr>learner_of :=
                                  Some (env_train_learner env n_input (length enc) X_tr
                                          (y_train opt1))\<rparr>
                      in if env_is_qp env then cache_factors problem_data factorized opt2
                         else (None, opt2))))))"

subsection \<open>Preconditions and the solver of the specification\<close>

text \<open>The ranked list has as many labels as the learner's \<^verbatim>\<open>n_best\<close>.\<close>

definition n_best_matches :: "('p, 's, 'c) optimizer \<Rightarrow> int list \<Rightarrow> bool" where
  "n_best_matches opt labels =
     (case learner_of opt of None \<Rightarrow> True | Some lr \<Rightarrow> length labels = n_best lr)"

text \<open>The remote solve of every candidate (given the whole list \<^verbatim>\<open>cache\<close>) has the same
  outcome as its sequential solve (given the candidate's entry \<^verbatim>\<open>cache[j]\<close>).\<close>

definition same_outcomes ::
  "('p \<Rightarrow> 's \<Rightarrow> 'c cache_arg \<Rightarrow> 'x candidate_result)
     \<Rightarrow> ('p \<Rightarrow> 's \<Rightarrow> 'c cache_arg \<Rightarrow> 'x candidate_result)
     \<Rightarrow> ('p, 's, 'c) optimizer \<Rightarrow> 'p \<Rightarrow> int list \<Rightarrow> bool \<Rightarrow> bool" where
  "same_outcomes sv sv_ray opt p labels use_cache =
     (case learner_of opt of
        None \<Rightarrow> True
      | Some lr \<Rightarrow>
         (case strategies_of (encoding opt) labels of
            Inl e \<Rightarrow> True
          | Inr strategies \<Rightarrow>
             (case cache_list (solver_cache opt) use_cache (n_best lr) labels of
                Inl e \<Rightarrow> True
              | Inr cache \<Rightarrow>
                 list_all
                   (\<lambda>j. sv_ray p (strategies ! j) (CacheList cache)
                        = sv p (strategies ! j) (CacheEntry (cache ! j)))
                   [0..<length labels])))"

text \<open>Modelled from the spec: the reduced solver \<^verbatim>\<open>solve_with_strategy\<close> of
  \<^verbatim>\<open>mlopt/problem.py\<close> is missing from the sources. The specification (4.5, 7) says that
  a per-candidate solve failure is treated as "infeasible with a large sentinel
  infeasibility value", not as a fatal error for the whole call. An attempt to solve
  a candidate either solves it or fails; the solver reports a failed attempt as a
  result whose infeasibility is the sentinel.\<close>

datatype 'x solve_attempt =
    AttemptSolved "'x candidate_result"
  | AttemptFailed "'x candidate_result"

definition attempt_failed :: "'x solve_attempt \<Rightarrow> bool" where
  "attempt_failed a = (case a of AttemptSolved r \<Rightarrow> False | AttemptFailed r \<Rightarrow> True)"

definition solve_with_strategy_spec ::
  "real \<Rightarrow> ('p \<Rightarrow> 's \<Rightarrow> 'c cache_arg \<Rightarrow> 'x solve_attempt)
     \<Rightarrow> 'p \<Rightarrow> 's \<Rightarrow> 'c cache_arg \<Rightarrow> 'x candidate_result" where
  "solve_with_strategy_spec SENTINEL attempt p s c =
     (case attempt p s c of
        AttemptSolved r \<Rightarrow> r
      | AttemptFailed r \<Rightarrow> r\<lparr>cr_infeasibility := SENTINEL\<rparr>)"

subsection \<open>A worked scenario\<close>

text \<open>Three ranked candidates with infeasibilities \<open>0, 0.2, 0\<close>, costs \<open>5, 1, 3\<close> and solve
  times \<open>1, 2, 4\<close>; the tolerance is \<open>0.01\<close>.\<close>

definition scenario_learner :: learner where
  "scenario_learner = \<lparr> n_best = 3, n_train = 3 \<rparr>"

definition scenario_opt :: "(nat, string, unit) optimizer" where
  "scenario_opt = \<lparr> learner_of = Some scenario_learner,
                    encoding = Some [''s0'', ''s1'', ''s2''],
                    X_train = None, y_train = None, obj_train = None,
                    solver_cache = None \<rparr>"

definition scenario_sv :: "nat \<Rightarrow> string \<Rightarrow> unit cache_arg \<Rightarrow> nat candidate_result" where
  "scenario_sv p s c =
     (if s = ''s0'' then \<lparr> cr_x = 10, cr_time = 1, cr_infeasibility = 0, cr_cost = 5 \<rparr>
      else if s = ''s1'' then \<lparr> cr_x = 11, cr_time = 2, cr_infeasibility = 2 / 10, cr_cost = 1 \<rparr>
      else \<lparr> cr_x = 12, cr_time = 4, cr_infeasibility = 0, cr_cost = 3 \<rparr>)"

text \<open>The same candidates when the attempt on \<open>s1\<close> fails.\<close>

definition scenario_attempt :: "nat \<Rightarrow> string \<Rightarrow> unit cache_arg \<Rightarrow> nat solve_attempt" where
  "scenario_attempt p s c =
     (if s = ''s1'' then AttemptFailed \<lparr> cr_x = 0, cr_time = 2, cr_infeasibility = 0, cr_cost = 0 \<rparr>
      else AttemptSolved (scenario_sv p s c))"

text \<open>A learner that ranks the strategies \<open>0, 1, 2\<close> for the point \<open>0\<close> and \<open>1, 0, -1\<close>
  for any other point.\<close>

definition scenario_predict :: "nat list \<Rightarrow> int list list" where
  "scenario_predict rows = map (\<lambda>p. if p = 0 then [0, 1, 2] else [1, 0, -1]) rows"

text \<open>Four test points: the strategies agree; they differ and the prediction is feasible
  and optimal; they differ and the prediction is infeasible; they differ and the
  prediction is feasible and suboptimal.\<close>

definition acc_pred :: "(nat, string) timed_result list" where
  "acc_pred =
     [\<lparr> tr_x = 0, tr_time = 1, tr_strategy = ''s0'', tr_cost = 7, tr_infeasibility = 1,
        tr_pred_time = 0, tr_solve_time = 1 \<rparr>,
      \<lparr> tr_x = 0, tr_time = 1, tr_strategy = ''s1'', tr_cost = 2, tr_infeasibility = 0,
        tr_pred_time = 0, tr_solve_time = 1 \<rparr>,
      \<lparr> tr_x = 0, tr_time = 1, tr_strategy = ''s1'', tr_cost = 2, tr_infeasibility = 1,
        tr_pred_time = 0, tr_solve_time = 1 \<rparr>,
      \<lparr> tr_x = 0, tr_time = 1, tr_strategy = ''s1'', tr_cost = 3, tr_infeasibility = 0,
        tr_pred_time = 0, tr_solve_time = 1 \<rparr>]"

definition acc_test :: "string exact_result list" where
  "acc_test =
     [\<lparr> er_strategy = Some ''s0'', er_cost = 2, er_time = 5, er_status = ''optimal'' \<rparr>,
      \<lparr> er_strategy = Some ''s2'', er_cost = 2, er_time = 5, er_status = ''optimal'' \<rparr>,
      \<lparr> er_strategy = Some ''s2'', er_cost = 2, er_time = 5, er_status = ''optimal'' \<rparr>,
      \<lparr> er_strategy = Some ''s2'', er_cost = 2, er_time = 5, er_status = ''optimal'' \<rparr>]"

text \<open>Two test points with true solve times \<open>4, 1\<close> and predicted total times \<open>1, 2\<close>.\<close>

definition perf_opt :: "(nat, string, unit) optimizer" where
  "perf_opt = \<lparr> learner_of = Some \<lparr> n_best = 1, n_train = 2 \<rparr>,
                encoding = Some [''s0''],
                X_train = None, y_train = None, obj_train = None,
                solver_cache = None \<rparr>"

definition perf_sv :: "nat \<Rightarrow> string \<Rightarrow> unit cache_arg \<Rightarrow> nat candidate_result" where
  "perf_sv p s c =
     \<lparr> cr_x = 0, cr_time = (if p = 0 then 1 else 2), cr_infeasibility = 0, cr_cost = 1 \<rparr>"

definition perf_predict :: "nat list \<Rightarrow> int list list" where
  "perf_predict rows = map (\<lambda>p. [0]) rows"

definition perf_exact :: "nat list \<Rightarrow> string exact_result list" where
  "perf_exact theta =
     map (\<lambda>p. \<lparr> er_strategy = Some ''s0'', er_cost = 1, er_time = (if p = 0 then 4 else 1),
                 er_status = ''optimal'' \<rparr>) theta"

text \<open>Two strategies, each seen at one training point; the KKT matrix of a point is the
  point itself, and the factorization fails on the matrix \<open>singular\<close>.\<close>

definition cf_opt :: "(nat, string, (nat, unit) cache_entry) optimizer" where
  "cf_opt = \<lparr> learner_of = None, encoding = Some [''s0'', ''s1''],
              X_train = Some [0, 1], y_train = Some [0, 1], obj_train = None,
              solver_cache = None \<rparr>"

definition cf_problem_data :: "nat \<Rightarrow> string \<Rightarrow> nat \<times> unit \<times> unit" where
  "cf_problem_data theta s = (theta, (), ())"

definition cf_factorized :: "nat \<Rightarrow> nat \<Rightarrow> error + nat" where
  "cf_factorized singular KKT_mat = (if KKT_mat = singular then Inl RuntimeError else Inr KKT_mat)"

text \<open>A training environment in which the point \<open>0\<close> is infeasible.\<close>

definition train_env :: "(nat, string, unit) training_env" where
  "train_env =
     \<lparr> env_solve_parametric =
         (\<lambda>X. map (\<lambda>p. if p = 0
                         then \<lparr> er_strategy = None, er_cost = 0, er_time = 1,
                                er_status = ''infeasible'' \<rparr>
                         else \<lparr> er_strategy = Some ''s0'', er_cost = 1, er_time = 1,
                                er_status = ''optimal'' \<rparr>) X),
       env_SOLUTION_PRESENT = [''optimal'', ''optimal_inaccurate''],
       env_encode_strategies = (\<lambda>ss. (map (\<lambda>s. 0) ss, [''s0''])),
       env_sample = (\<lambda>g. ([], [], [])),
       env_filter = (\<lambda>X y obj enc. ([], enc)),
       env_K_MAX_STRATEGIES = 100,
       env_n_columns = 1,
       env_row_features = (\<lambda>p. 1),
       env_train_learner = (\<lambda>n_input n_classes X y. \<lparr> n_best = 1, n_train = length X \<rparr>),
       env_is_qp = True \<rparr>"

section \<open>Properties\<close>

subsection \<open>Indexing and argmin\<close>

lemma argmin_scan_first_min:
  assumes "xs = pre @ vs" "length pre = i" "bi < i" "bv = xs ! bi"
    "\<forall>j<i. bv \<le> xs ! j" "\<forall>j<bi. bv < xs ! j"
  shows "argmin_scan vs i bi bv < length xs
       \<and> (\<forall>j<length xs. xs ! argmin_scan vs i bi bv \<le> xs ! j)
       \<and> (\<forall>j<argmin_scan vs i bi bv. xs ! argmin_scan vs i bi bv < xs ! j)"
  using assms
proof (induction vs arbitrary: pre i bi bv)
  case Nil
  then show ?case by auto
next
  case (Cons v vs)
  have xi: "xs ! i = v" using Cons.prems(1,2) by (simp add: nth_append)
  have split: "xs = (pre @ [v]) @ vs" "length (pre @ [v]) = Suc i"
    using Cons.prems(1,2) by simp_all
  show ?case
  proof (cases "v < bv")
    case True
    have a: "\<forall>j<Suc i. v \<le> xs ! j"
      using Cons.prems(5) True xi by (auto simp: less_Suc_eq)
    have b: "\<forall>j<i. v < xs ! j"
      using Cons.prems(5) True by fastforce
    from Cons.IH[OF split _ _ a, of i] xi b True show ?thesis by simp
  next
    case False
    have a: "\<forall>j<Suc i. bv \<le> xs ! j"
      using Cons.prems(5) False xi by (auto simp: less_Suc_eq)
    from Cons.IH[OF split _ Cons.prems(4) a Cons.prems(6)] Cons.prems(3) False
    show ?thesis by simp
  qed
qed

lemma np_argmin_first_min:
  assumes "vs \<noteq> []"
  shows "\<exists>k. np_argmin vs = Inr k \<and> k < length vs
           \<and> (\<forall>j<length vs. vs ! k \<le> vs ! j) \<and> (\<forall>j<k. vs ! k < vs ! j)"
proof -
  from assms obtain v ws where vs: "vs = v # ws" by (cases vs) auto
  have "argmin_scan ws 1 0 v < length vs
       \<and> (\<forall>j<length vs. vs ! argmin_scan ws 1 0 v \<le> vs ! j)
       \<and> (\<forall>j<argmin_scan ws 1 0 v. vs ! argmin_scan ws 1 0 v < vs ! j)"
    by (rule argmin_scan_first_min[where pre = "[v]"]) (simp_all add: vs)
  then show ?thesis by (simp add: np_argmin_def vs)
qed

lemma np_where_le_mem:
  "j \<in> set (np_where_le a tol) \<longleftrightarrow> j < length a \<and> a ! j \<le> tol"
  by (auto simp: np_where_le_def)

lemma np_where_le_increasing: "sorted_wrt (<) (np_where_le a tol)"
  by (simp add: np_where_le_def sorted_wrt_filter)

lemma idx_pick_first_min:
  assumes len: "length cost = length infeas" and ne: "infeas \<noteq> []"
  shows "\<exists>i. idx_pick tol infeas cost = Inr i \<and> i < length infeas
     \<and> ((\<exists>j<length infeas. infeas ! j \<le> tol) \<longrightarrow>
           infeas ! i \<le> tol
         \<and> (\<forall>j<length infeas. infeas ! j \<le> tol \<longrightarrow> cost ! i \<le> cost ! j)
         \<and> (\<forall>j<i. infeas ! j \<le> tol \<longrightarrow> cost ! i < cost ! j))
     \<and> (\<not> (\<exists>j<length infeas. infeas ! j \<le> tol) \<longrightarrow>
           (\<forall>j<length infeas. infeas ! i \<le> infeas ! j)
         \<and> (\<forall>j<i. infeas ! i < infeas ! j))"
proof (cases "\<exists>j<length infeas. infeas ! j \<le> tol")
  case True
  define idx where "idx = np_where_le infeas tol"
  have mem: "\<And>j. j \<in> set idx \<longleftrightarrow> j < length infeas \<and> infeas ! j \<le> tol"
    by (simp add: idx_def np_where_le_mem)
  have inc: "sorted_wrt (<) idx"
    by (simp add: idx_def np_where_le_increasing)
  from True mem have idx_ne: "idx \<noteq> []" by (metis empty_iff set_empty)
  let ?cs = "map (\<lambda>i. cost ! i) idx"
  from idx_ne have "?cs \<noteq> []" by simp
  from np_argmin_first_min[OF this] obtain k where
    k: "np_argmin ?cs = Inr k" "k < length idx"
       "\<forall>m<length idx. cost ! (idx ! k) \<le> cost ! (idx ! m)"
       "\<forall>m<k. cost ! (idx ! k) < cost ! (idx ! m)"
    by auto
  let ?i = "idx ! k"
  have pick: "idx_pick tol infeas cost = Inr ?i"
    using idx_ne k(1) by (simp add: idx_pick_def idx_def[symmetric])
  have i_in: "?i \<in> set idx" using k(2) by simp
  have le: "cost ! ?i \<le> cost ! j" if "j < length infeas" "infeas ! j \<le> tol" for j
  proof -
    from that mem have "j \<in> set idx" by simp
    then obtain m where "m < length idx" "idx ! m = j" by (auto simp: in_set_conv_nth)
    with k(3) show ?thesis by auto
  qed
  have lt: "cost ! ?i < cost ! j" if "j < ?i" "infeas ! j \<le> tol" for j
  proof -
    from that i_in mem have "j \<in> set idx" by auto
    then obtain m where m: "m < length idx" "idx ! m = j" by (auto simp: in_set_conv_nth)
    have "m < k"
    proof (rule ccontr)
      assume "\<not> m < k"
      then have "k \<le> m" by simp
      then have "idx ! k \<le> idx ! m"
        using inc m(1) by (cases "k = m") (auto simp: sorted_wrt_iff_nth_less less_imp_le)
      with that(1) m(2) show False by simp
    qed
    with k(4) m(2) show ?thesis by auto
  qed
  from pick i_in mem le lt True show ?thesis by auto
next
  case False
  then have "np_where_le infeas tol = []"
    by (auto simp: np_where_le_def filter_empty_conv)
  then have pick: "idx_pick tol infeas cost = np_argmin infeas"
    by (simp add: idx_pick_def)
  from np_argmin_first_min[OF ne] pick False show ?thesis by auto
qed

lemma index_all_in_range:
  assumes "labels_in_range (length xs) labels"
  shows "index_all xs labels = Inr (map (\<lambda>l. xs ! py_pos (length xs) l) labels)"
  using assms
  by (induction labels) (auto simp: labels_in_range_def py_index_def py_pos_def Let_def)

lemma solve_sequential_in_range:
  assumes "\<forall>j\<in>set js. j < length strategies \<and> j < length cache"
  shows "solve_sequential sv p strategies cache js
       = Inr (map (\<lambda>j. sv p (strategies ! j) (CacheEntry (cache ! j))) js)"
  using assms by (induction js) (auto simp: nth_err_def)

subsection \<open>choose\_best returns a candidate\<close>

lemma cache_list_in_range:
  assumes "cache_in_range (solver_cache opt) use_cache labels"
  shows "\<exists>cache. cache_list (solver_cache opt) use_cache (length labels) labels = Inr cache
           \<and> length cache = length labels"
proof (cases "cache_truthy (solver_cache opt) \<and> use_cache")
  case True
  with assms have "labels_in_range
      (length (case solver_cache opt of None \<Rightarrow> [] | Some es \<Rightarrow> es)) labels"
    by (simp add: cache_in_range_def)
  from index_all_in_range[OF this] True show ?thesis
    by (simp add: cache_list_def)
next
  case False
  then show ?thesis by (auto simp: cache_list_def)
qed

lemma candidate_results_in_range:
  assumes "length strategies = n" "length cache = n"
  shows "candidate_results sv sv_ray n p strategies cache parallel
       = Inr (map (\<lambda>j. if parallel then sv_ray p (strategies ! j) (CacheList cache)
                       else sv p (strategies ! j) (CacheEntry (cache ! j))) [0..<n])"
proof (cases parallel)
  case True
  have "map (\<lambda>s. sv_ray p s (CacheList cache)) strategies
      = map (\<lambda>j. sv_ray p (strategies ! j) (CacheList cache)) [0..<n]"
    using assms(1) by (auto simp: list_eq_iff_nth_eq)
  with True show ?thesis by (simp add: candidate_results_def solve_parallel_def)
next
  case False
  have "\<forall>j\<in>set [0..<n]. j < length strategies \<and> j < length cache"
    using assms by simp
  from solve_sequential_in_range[OF this] False show ?thesis
    by (simp add: candidate_results_def)
qed

lemma pick_result_picks:
  assumes "results \<noteq> []" "length strategies = length results"
  shows "\<exists>i. idx_pick tol (map cr_infeasibility results) (map cr_cost results) = Inr i
           \<and> i < length results
           \<and> pick_result tol strategies results
             = Inr \<lparr> br_x = cr_x (results ! i), br_time = sum_list (map cr_time results),
                     br_strategy = strategies ! i, br_cost = cr_cost (results ! i),
                     br_infeasibility = cr_infeasibility (results ! i) \<rparr>"
proof -
  have "length (map cr_cost results) = length (map cr_infeasibility results)"
       "map cr_infeasibility results \<noteq> []"
    using assms(1) by simp_all
  from idx_pick_first_min[OF this, of tol] obtain i where
    i: "idx_pick tol (map cr_infeasibility results) (map cr_cost results) = Inr i"
       "i < length results"
    by auto
  with assms(2) show ?thesis
    by (simp add: pick_result_def nth_err_def Let_def)
qed

lemma choose_best_unfold:
  assumes "learner_of opt = Some lr" "encoding opt = Some enc"
    and "index_all enc labels = Inr strategies"
    and "cache_list (solver_cache opt) use_cache (n_best lr) labels = Inr cache"
    and "candidate_results sv sv_ray (n_best lr) p strategies cache parallel = Inr results"
  shows "choose_best tol sv sv_ray opt p labels parallel use_cache
       = pick_result tol strategies results"
  using assms by (simp add: choose_best_def strategies_of_def)

lemma choose_best_returns:
  assumes lr: "learner_of opt = Some lr" and enc: "encoding opt = Some enc"
    and ne: "labels \<noteq> []" and len: "length labels = n_best lr"
    and rng: "labels_in_range (length enc) labels"
    and crng: "cache_in_range (solver_cache opt) use_cache labels"
  shows "\<exists>strategies cache results i.
           index_all enc labels = Inr strategies
         \<and> cache_list (solver_cache opt) use_cache (n_best lr) labels = Inr cache
         \<and> candidate_results sv sv_ray (n_best lr) p strategies cache parallel = Inr results
         \<and> length strategies = length labels
         \<and> length results = length labels
         \<and> idx_pick tol (map cr_infeasibility results) (map cr_cost results) = Inr i
         \<and> i < length results
         \<and> choose_best tol sv sv_ray opt p labels parallel use_cache
           = Inr \<lparr> br_x = cr_x (results ! i), br_time = sum_list (map cr_time results),
                   br_strategy = strategies ! i, br_cost = cr_cost (results ! i),
                   br_infeasibility = cr_infeasibility (results ! i) \<rparr>"
proof -
  define strategies where "strategies = map (\<lambda>l. enc ! py_pos (length enc) l) labels"
  have s: "index_all enc labels = Inr strategies" "length strategies = length labels"
    using index_all_in_range[OF rng] by (simp_all add: strategies_def)
  from cache_list_in_range[OF crng] len obtain cache where
    c: "cache_list (solver_cache opt) use_cache (n_best lr) labels = Inr cache"
       "length cache = length labels"
    by auto
  define results where "results = map (\<lambda>j. if parallel then sv_ray p (strategies ! j) (CacheList cache)
                       else sv p (strategies ! j) (CacheEntry (cache ! j))) [0..<n_best lr]"
  have r: "candidate_results sv sv_ray (n_best lr) p strategies cache parallel = Inr results"
    unfolding results_def using s(2) c(2) len by (intro candidate_results_in_range) simp_all
  have rl: "length results = length labels" by (simp add: results_def len)
  with ne s(2) have "results \<noteq> []" "length strategies = length results" by auto
  from pick_result_picks[OF this, of tol] obtain i where
    i: "idx_pick tol (map cr_infeasibility results) (map cr_cost results) = Inr i"
       "i < length results"
       "pick_result tol strategies results
             = Inr \<lparr> br_x = cr_x (results ! i), br_time = sum_list (map cr_time results),
                     br_strategy = strategies ! i, br_cost = cr_cost (results ! i),
                     br_infeasibility = cr_infeasibility (results ! i) \<rparr>"
    by auto
  from choose_best_unfold[OF lr enc s(1) c(1) r, of tol] i s c r rl show ?thesis
    by auto
qed


text \<open>The result of a well-formed call in terms of the solves of the ranked candidates.\<close>

lemma cache_list_explicit:
  assumes "cache_in_range sc use_cache labels"
  shows "cache_list sc use_cache (length labels) labels
       = Inr (if (case sc of None \<Rightarrow> [] | Some es \<Rightarrow> es) \<noteq> [] \<and> use_cache
              then map (\<lambda>l. Some ((case sc of None \<Rightarrow> [] | Some es \<Rightarrow> es)
                                     ! py_pos (length (case sc of None \<Rightarrow> [] | Some es \<Rightarrow> es)) l))
                     labels
              else replicate (length labels) None)"
proof (cases "cache_truthy sc \<and> use_cache")
  case True
  with assms have "labels_in_range (length (case sc of None \<Rightarrow> [] | Some es \<Rightarrow> es)) labels"
    by (simp add: cache_in_range_def)
  from index_all_in_range[OF this] True show ?thesis
    by (auto simp: cache_list_def cache_truthy_def comp_def split: option.splits)
next
  case False
  then show ?thesis
    by (auto simp: cache_list_def cache_truthy_def split: option.splits)
qed

lemma choose_best_outcomes:
  assumes lr: "learner_of opt = Some lr" and enc: "encoding opt = Some enc"
    and ne: "labels \<noteq> []" and len: "length labels = n_best lr"
    and rng: "labels_in_range (length enc) labels"
    and crng: "cache_in_range (solver_cache opt) use_cache labels"
  shows "\<exists>i. i < length labels
         \<and> idx_pick tol (map (\<lambda>j. cr_infeasibility (ranked_outcome sv sv_ray enc (solver_cache opt) p labels parallel use_cache j)) [0..<length labels])
                        (map (\<lambda>j. cr_cost (ranked_outcome sv sv_ray enc (solver_cache opt) p labels parallel use_cache j)) [0..<length labels]) = Inr i
         \<and> choose_best tol sv sv_ray opt p labels parallel use_cache
           = Inr \<lparr> br_x = cr_x (ranked_outcome sv sv_ray enc (solver_cache opt) p labels parallel use_cache i),
                   br_time = sum_list (map (\<lambda>j. cr_time (ranked_outcome sv sv_ray enc (solver_cache opt) p labels parallel use_cache j)) [0..<length labels]),
                   br_strategy = enc ! py_pos (length enc) (labels ! i),
                   br_cost = cr_cost (ranked_outcome sv sv_ray enc (solver_cache opt) p labels parallel use_cache i),
                   br_infeasibility = cr_infeasibility (ranked_outcome sv sv_ray enc (solver_cache opt) p labels parallel use_cache i) \<rparr>"
proof -
  let ?out = "ranked_outcome sv sv_ray enc (solver_cache opt) p labels parallel use_cache"
  define strategies where "strategies = map (\<lambda>l. enc ! py_pos (length enc) l) labels"
  let ?es = "case solver_cache opt of None \<Rightarrow> [] | Some es \<Rightarrow> es"
  define cache where "cache = (if ?es \<noteq> [] \<and> use_cache
              then map (\<lambda>l. Some (?es ! py_pos (length ?es) l)) labels
              else replicate (length labels) None)"
  have s: "index_all enc labels = Inr strategies" and sl: "length strategies = n_best lr"
    using index_all_in_range[OF rng] len by (simp_all add: strategies_def)
  have c: "cache_list (solver_cache opt) use_cache (n_best lr) labels = Inr cache"
    using cache_list_explicit[OF crng] len by (simp add: cache_def)
  have cl: "length cache = n_best lr" using len by (simp add: cache_def)
  define results where "results = map ?out [0..<length labels]"
  have "map (\<lambda>j. if parallel then sv_ray p (strategies ! j) (CacheList cache)
                       else sv p (strategies ! j) (CacheEntry (cache ! j))) [0..<n_best lr]
      = results"
    unfolding results_def len
    by (rule map_cong[OF refl])
       (simp add: ranked_outcome_def Let_def strategies_def cache_def len[symmetric])
  with candidate_results_in_range[OF sl cl, of sv sv_ray p parallel]
  have r: "candidate_results sv sv_ray (n_best lr) p strategies cache parallel = Inr results"
    by simp
  have rl: "length results = length labels" by (simp add: results_def)
  with ne sl len have "results \<noteq> []" "length strategies = length results" by auto
  from pick_result_picks[OF this, of tol] obtain i where
    i: "idx_pick tol (map cr_infeasibility results) (map cr_cost results) = Inr i"
       "i < length results"
       "pick_result tol strategies results
             = Inr \<lparr> br_x = cr_x (results ! i), br_time = sum_list (map cr_time results),
                     br_strategy = strategies ! i, br_cost = cr_cost (results ! i),
                     br_infeasibility = cr_infeasibility (results ! i) \<rparr>"
    by auto
  have il: "i < length labels" using i(2) rl by simp
  have ri: "results ! i = ?out i" using il by (simp add: results_def)
  have si: "strategies ! i = enc ! py_pos (length enc) (labels ! i)"
    using il by (simp add: strategies_def)
  have maps: "map cr_infeasibility results = map (\<lambda>j. cr_infeasibility (?out j)) [0..<length labels]"
       "map cr_cost results = map (\<lambda>j. cr_cost (?out j)) [0..<length labels]"
       "map cr_time results = map (\<lambda>j. cr_time (?out j)) [0..<length labels]"
    by (simp_all add: results_def comp_def)
  from choose_best_unfold[OF lr enc s c r, of tol] i il
  show ?thesis
    by (intro exI[of _ i]) (simp add: ri si maps)
qed

subsection \<open>The selection rule\<close>

text \<open>
  Claim C1. A call of \<^verbatim>\<open>choose_best\<close> on a non-empty list of \<^verbatim>\<open>n_best\<close> labels in range
  returns the result of one candidate \<open>i\<close>: its point, cost and infeasibility are those
  of the solve of the candidate of rank \<open>i\<close>, and its strategy is the encoding's entry for
  label \<open>i\<close>. Let \<open>F\<close> be the set of ranks whose solve has infeasibility at most
  \<^verbatim>\<open>INFEAS_TOL\<close>. If \<open>F\<close> is not empty, \<open>i\<close> is in \<open>F\<close>, its cost is minimal in \<open>F\<close>, and
  every member of \<open>F\<close> of lower rank has a strictly larger cost. If \<open>F\<close> is empty, the
  infeasibility of \<open>i\<close> is minimal among all candidates, and every candidate of lower rank
  has a strictly larger infeasibility. This holds in the sequential and in the parallel
  branch.
\<close>

theorem choose_best_first_minimum:
  assumes lr: "learner_of opt = Some lr" and enc: "encoding opt = Some enc"
    and ne: "labels \<noteq> []" and len: "length labels = n_best lr"
    and rng: "labels_in_range (length enc) labels"
    and crng: "cache_in_range (solver_cache opt) use_cache labels"
  shows "\<exists>i r.
           choose_best INFEAS_TOL sv sv_ray opt p labels parallel use_cache = Inr r
         \<and> i < length labels
         \<and> br_x r = cr_x (ranked_outcome sv sv_ray enc (solver_cache opt) p labels parallel use_cache i)
         \<and> br_strategy r = enc ! py_pos (length enc) (labels ! i)
         \<and> br_cost r
             = cr_cost (ranked_outcome sv sv_ray enc (solver_cache opt) p labels parallel use_cache i)
         \<and> br_infeasibility r
             = cr_infeasibility
                 (ranked_outcome sv sv_ray enc (solver_cache opt) p labels parallel use_cache i)
         \<and> (let out = ranked_outcome sv sv_ray enc (solver_cache opt) p labels parallel use_cache;
                F = {j. j < length labels \<and> cr_infeasibility (out j) \<le> INFEAS_TOL}
            in if F \<noteq> {}
               then i \<in> F
                  \<and> (\<forall>j\<in>F. cr_cost (out i) \<le> cr_cost (out j))
                  \<and> (\<forall>j\<in>F. j < i \<longrightarrow> cr_cost (out i) < cr_cost (out j))
               else (\<forall>j<length labels. cr_infeasibility (out i) \<le> cr_infeasibility (out j))
                  \<and> (\<forall>j<i. cr_infeasibility (out i) < cr_infeasibility (out j)))"
proof -
  let ?out = "ranked_outcome sv sv_ray enc (solver_cache opt) p labels parallel use_cache"
  let ?inf = "map (\<lambda>j. cr_infeasibility (?out j)) [0..<length labels]"
  let ?cost = "map (\<lambda>j. cr_cost (?out j)) [0..<length labels]"
  let ?r = "\<lambda>i. \<lparr> br_x = cr_x (?out i),
                   br_time = sum_list (map (\<lambda>j. cr_time (?out j)) [0..<length labels]),
                   br_strategy = enc ! py_pos (length enc) (labels ! i),
                   br_cost = cr_cost (?out i),
                   br_infeasibility = cr_infeasibility (?out i) \<rparr>"
  from choose_best_outcomes[OF lr enc ne len rng crng, of INFEAS_TOL sv sv_ray p parallel]
  obtain i where i: "i < length labels" "idx_pick INFEAS_TOL ?inf ?cost = Inr i"
    and cb: "choose_best INFEAS_TOL sv sv_ray opt p labels parallel use_cache = Inr (?r i)"
    by blast
  have "length ?cost = length ?inf" "?inf \<noteq> []" using ne by auto
  from idx_pick_first_min[OF this, of INFEAS_TOL] i(2)
  have sel: "((\<exists>j<length ?inf. ?inf ! j \<le> INFEAS_TOL) \<longrightarrow>
           ?inf ! i \<le> INFEAS_TOL
         \<and> (\<forall>j<length ?inf. ?inf ! j \<le> INFEAS_TOL \<longrightarrow> ?cost ! i \<le> ?cost ! j)
         \<and> (\<forall>j<i. ?inf ! j \<le> INFEAS_TOL \<longrightarrow> ?cost ! i < ?cost ! j))
     \<and> (\<not> (\<exists>j<length ?inf. ?inf ! j \<le> INFEAS_TOL) \<longrightarrow>
           (\<forall>j<length ?inf. ?inf ! i \<le> ?inf ! j)
         \<and> (\<forall>j<i. ?inf ! i < ?inf ! j))"
    by auto
  have nth: "?inf ! j = cr_infeasibility (?out j)" "?cost ! j = cr_cost (?out j)"
    if "j < length labels" for j
    using that by simp_all
  have feas: "(\<exists>j<length labels. cr_infeasibility (?out j) \<le> INFEAS_TOL) \<Longrightarrow>
           cr_infeasibility (?out i) \<le> INFEAS_TOL
         \<and> (\<forall>j<length labels. cr_infeasibility (?out j) \<le> INFEAS_TOL
               \<longrightarrow> cr_cost (?out i) \<le> cr_cost (?out j))
         \<and> (\<forall>j<i. cr_infeasibility (?out j) \<le> INFEAS_TOL
               \<longrightarrow> cr_cost (?out i) < cr_cost (?out j))"
    using sel i(1) nth by (auto simp del: nth_map nth_upt)
  have infeas: "\<not> (\<exists>j<length labels. cr_infeasibility (?out j) \<le> INFEAS_TOL) \<Longrightarrow>
           (\<forall>j<length labels. cr_infeasibility (?out i) \<le> cr_infeasibility (?out j))
         \<and> (\<forall>j<i. cr_infeasibility (?out i) < cr_infeasibility (?out j))"
    using sel i(1) nth by (auto simp del: nth_map nth_upt)
  have rule: "(let out = ?out;
                F = {j. j < length labels \<and> cr_infeasibility (out j) \<le> INFEAS_TOL}
            in if F \<noteq> {}
               then i \<in> F
                  \<and> (\<forall>j\<in>F. cr_cost (out i) \<le> cr_cost (out j))
                  \<and> (\<forall>j\<in>F. j < i \<longrightarrow> cr_cost (out i) < cr_cost (out j))
               else (\<forall>j<length labels. cr_infeasibility (out i) \<le> cr_infeasibility (out j))
                  \<and> (\<forall>j<i. cr_infeasibility (out i) < cr_infeasibility (out j)))"
  proof (cases "\<exists>j<length labels. cr_infeasibility (?out j) \<le> INFEAS_TOL")
    case True
    from feas[OF True] True i(1) show ?thesis by (auto simp: Let_def)
  next
    case False
    from infeas[OF False] False show ?thesis by (auto simp: Let_def)
  qed
  have fields: "br_x (?r i) = cr_x (?out i)"
      "br_strategy (?r i) = enc ! py_pos (length enc) (labels ! i)"
      "br_cost (?r i) = cr_cost (?out i)"
      "br_infeasibility (?r i) = cr_infeasibility (?out i)"
    by simp_all
  show ?thesis
    apply (rule exI[of _ i], rule exI[of _ "?r i"])
    apply (intro conjI)
          apply (rule cb)
         apply (rule i(1))
        apply (rule fields(1))
       apply (rule fields(2))
      apply (rule fields(3))
     apply (rule fields(4))
    apply (rule rule)
    done
qed


theorem choose_best_first_minimum_witness:
  "learner_of scenario_opt = Some scenario_learner
 \<and> encoding scenario_opt = Some [''s0'', ''s1'', ''s2'']
 \<and> [0, 1, 2] \<noteq> ([] :: int list)
 \<and> length [0, 1, 2 :: int] = n_best scenario_learner
 \<and> labels_in_range (length [''s0'', ''s1'', ''s2'']) [0, 1, 2]
 \<and> cache_in_range (solver_cache scenario_opt) False [0, 1, 2]
 \<and> (\<exists>i r.
           choose_best (1 / 100) scenario_sv scenario_sv scenario_opt 0 [0, 1, 2] False False = Inr r
         \<and> i < length [0, 1, 2 :: int]
         \<and> br_x r = cr_x (ranked_outcome scenario_sv scenario_sv [''s0'', ''s1'', ''s2'']
                             (solver_cache scenario_opt) 0 [0, 1, 2] False False i)
         \<and> br_strategy r = [''s0'', ''s1'', ''s2'']
                               ! py_pos (length [''s0'', ''s1'', ''s2'']) ([0, 1, 2] ! i)
         \<and> br_cost r
             = cr_cost (ranked_outcome scenario_sv scenario_sv [''s0'', ''s1'', ''s2'']
                          (solver_cache scenario_opt) 0 [0, 1, 2] False False i)
         \<and> br_infeasibility r
             = cr_infeasibility
                 (ranked_outcome scenario_sv scenario_sv [''s0'', ''s1'', ''s2'']
                    (solver_cache scenario_opt) 0 [0, 1, 2] False False i)
         \<and> (let out = ranked_outcome scenario_sv scenario_sv [''s0'', ''s1'', ''s2'']
                         (solver_cache scenario_opt) 0 [0, 1, 2] False False;
                F = {j. j < length [0, 1, 2 :: int] \<and> cr_infeasibility (out j) \<le> 1 / 100}
            in if F \<noteq> {}
               then i \<in> F
                  \<and> (\<forall>j\<in>F. cr_cost (out i) \<le> cr_cost (out j))
                  \<and> (\<forall>j\<in>F. j < i \<longrightarrow> cr_cost (out i) < cr_cost (out j))
               else (\<forall>j<length [0, 1, 2 :: int].
                       cr_infeasibility (out i) \<le> cr_infeasibility (out j))
                  \<and> (\<forall>j<i. cr_infeasibility (out i) < cr_infeasibility (out j))))
 \<and> map (ranked_outcome scenario_sv scenario_sv [''s0'', ''s1'', ''s2'']
          (solver_cache scenario_opt) 0 [0, 1, 2] False False) [0, 1, 2]
     = [\<lparr> cr_x = 10, cr_time = 1, cr_infeasibility = 0, cr_cost = 5 \<rparr>,
        \<lparr> cr_x = 11, cr_time = 2, cr_infeasibility = 2 / 10, cr_cost = 1 \<rparr>,
        \<lparr> cr_x = 12, cr_time = 4, cr_infeasibility = 0, cr_cost = 3 \<rparr>]
 \<and> choose_best (1 / 100) scenario_sv scenario_sv scenario_opt 0 [0, 1, 2] False False
     = Inr \<lparr> br_x = 12, br_time = 7, br_strategy = ''s2'', br_cost = 3, br_infeasibility = 0 \<rparr>"
proof -
  have h1: "learner_of scenario_opt = Some scenario_learner"
    and h2: "encoding scenario_opt = Some [''s0'', ''s1'', ''s2'']"
    by (simp_all add: scenario_opt_def)
  have h3: "[0, 1, 2] \<noteq> ([] :: int list)" by simp
  have h4: "length [0, 1, 2 :: int] = n_best scenario_learner"
    by (simp add: scenario_learner_def)
  have h5: "labels_in_range (length [''s0'', ''s1'', ''s2'']) [0, 1, 2]"
    by (simp add: labels_in_range_def)
  have h6: "cache_in_range (solver_cache scenario_opt) False [0, 1, 2]"
    by (simp add: cache_in_range_def)
  have v1: "map (ranked_outcome scenario_sv scenario_sv [''s0'', ''s1'', ''s2'']
          (solver_cache scenario_opt) 0 [0, 1, 2] False False) [0, 1, 2]
     = [\<lparr> cr_x = 10, cr_time = 1, cr_infeasibility = 0, cr_cost = 5 \<rparr>,
        \<lparr> cr_x = 11, cr_time = 2, cr_infeasibility = 2 / 10, cr_cost = 1 \<rparr>,
        \<lparr> cr_x = 12, cr_time = 4, cr_infeasibility = 0, cr_cost = 3 \<rparr>]"
    by code_simp
  have v2: "choose_best (1 / 100) scenario_sv scenario_sv scenario_opt 0 [0, 1, 2] False False
     = Inr \<lparr> br_x = 12, br_time = 7, br_strategy = ''s2'', br_cost = 3, br_infeasibility = 0 \<rparr>"
    by code_simp
  note t = choose_best_first_minimum[OF h1 h2 h3 h4 h5 h6,
      of "1 / 100" scenario_sv scenario_sv 0 False]
  show ?thesis
    apply (intro conjI)
            apply (rule h1)
           apply (rule h2)
          apply (rule h3)
         apply (rule h4)
        apply (rule h5)
       apply (rule h6)
      apply (rule t)
     apply (rule v1)
    apply (rule v2)
    done
qed


subsection \<open>The reported time\<close>

text \<open>
  Claim C2. For \<^verbatim>\<open>n_best \<ge> 1\<close> candidates, \<^verbatim>\<open>choose_best\<close> returns a result whose \<^verbatim>\<open>time\<close>
  is the sum, over all \<^verbatim>\<open>n_best\<close> ranks, of the time of the solve of the candidate of
  that rank.
\<close>

theorem choose_best_time_is_sum:
  assumes lr: "learner_of opt = Some lr" and enc: "encoding opt = Some enc"
    and nb: "1 \<le> n_best lr" and len: "length labels = n_best lr"
    and rng: "labels_in_range (length enc) labels"
    and crng: "cache_in_range (solver_cache opt) use_cache labels"
  shows "\<exists>r. choose_best INFEAS_TOL sv sv_ray opt p labels parallel use_cache = Inr r
           \<and> br_time r
             = sum_list (map (\<lambda>j. cr_time (ranked_outcome sv sv_ray enc (solver_cache opt) p
                                              labels parallel use_cache j))
                          [0..<n_best lr])"
proof -
  from nb len have ne: "labels \<noteq> []" by auto
  from choose_best_outcomes[OF lr enc ne len rng crng, of INFEAS_TOL sv sv_ray p parallel]
  obtain i where "choose_best INFEAS_TOL sv sv_ray opt p labels parallel use_cache
      = Inr \<lparr> br_x = cr_x (ranked_outcome sv sv_ray enc (solver_cache opt) p labels parallel
                              use_cache i),
              br_time = sum_list (map (\<lambda>j. cr_time (ranked_outcome sv sv_ray enc
                           (solver_cache opt) p labels parallel use_cache j)) [0..<length labels]),
              br_strategy = enc ! py_pos (length enc) (labels ! i),
              br_cost = cr_cost (ranked_outcome sv sv_ray enc (solver_cache opt) p labels
                                   parallel use_cache i),
              br_infeasibility = cr_infeasibility (ranked_outcome sv sv_ray enc
                                   (solver_cache opt) p labels parallel use_cache i) \<rparr>"
    by blast
  with len show ?thesis by simp
qed

theorem choose_best_time_is_sum_witness:
  "learner_of scenario_opt = Some scenario_learner
 \<and> encoding scenario_opt = Some [''s0'', ''s1'', ''s2'']
 \<and> 1 \<le> n_best scenario_learner
 \<and> length [2, 0, -2 :: int] = n_best scenario_learner
 \<and> labels_in_range (length [''s0'', ''s1'', ''s2'']) [2, 0, -2]
 \<and> cache_in_range (solver_cache scenario_opt) True [2, 0, -2]
 \<and> (\<exists>r. choose_best (1 / 100) scenario_sv scenario_sv scenario_opt 0 [2, 0, -2] True True = Inr r
           \<and> br_time r
             = sum_list (map (\<lambda>j. cr_time (ranked_outcome scenario_sv scenario_sv
                                              [''s0'', ''s1'', ''s2''] (solver_cache scenario_opt) 0
                                              [2, 0, -2] True True j))
                          [0..<n_best scenario_learner]))
 \<and> map (\<lambda>j. cr_time (ranked_outcome scenario_sv scenario_sv [''s0'', ''s1'', ''s2'']
                         (solver_cache scenario_opt) 0 [2, 0, -2] True True j))
       [0..<n_best scenario_learner] = [4, 1, 2]
 \<and> choose_best (1 / 100) scenario_sv scenario_sv scenario_opt 0 [2, 0, -2] True True
     = Inr \<lparr> br_x = 12, br_time = 7, br_strategy = ''s2'', br_cost = 3, br_infeasibility = 0 \<rparr>"
proof -
  have h1: "learner_of scenario_opt = Some scenario_learner"
    and h2: "encoding scenario_opt = Some [''s0'', ''s1'', ''s2'']"
    by (simp_all add: scenario_opt_def)
  have h3: "1 \<le> n_best scenario_learner"
    and h4: "length [2, 0, -2 :: int] = n_best scenario_learner"
    by (simp_all add: scenario_learner_def)
  have h5: "labels_in_range (length [''s0'', ''s1'', ''s2'']) [2, 0, -2]"
    by (simp add: labels_in_range_def)
  have h6: "cache_in_range (solver_cache scenario_opt) True [2, 0, -2]"
    by (simp add: cache_in_range_def cache_truthy_def scenario_opt_def)
  have v1: "map (\<lambda>j. cr_time (ranked_outcome scenario_sv scenario_sv [''s0'', ''s1'', ''s2'']
                         (solver_cache scenario_opt) 0 [2, 0, -2] True True j))
       [0..<n_best scenario_learner] = [4, 1, 2]"
    by code_simp
  have v2: "choose_best (1 / 100) scenario_sv scenario_sv scenario_opt 0 [2, 0, -2] True True
     = Inr \<lparr> br_x = 12, br_time = 7, br_strategy = ''s2'', br_cost = 3, br_infeasibility = 0 \<rparr>"
    by code_simp
  note t = choose_best_time_is_sum[OF h1 h2 h3 h4 h5 h6,
      of "1 / 100" scenario_sv scenario_sv 0 True]
  show ?thesis
    apply (intro conjI)
            apply (rule h1)
           apply (rule h2)
          apply (rule h3)
         apply (rule h4)
        apply (rule h5)
       apply (rule h6)
      apply (rule t)
     apply (rule v1)
    apply (rule v2)
    done
qed

subsection \<open>Parallel and sequential evaluation\<close>

lemma index_all_length: "index_all xs ls = Inr vs \<Longrightarrow> length vs = length ls"
  by (induction ls arbitrary: vs) (auto split: sum.splits)

lemma strategies_of_length:
  "strategies_of encoding_field labels = Inr vs \<Longrightarrow> length vs = length labels"
  by (auto simp: strategies_of_def dest: index_all_length split: option.splits if_splits)

lemma cache_list_length:
  "cache_list sc uc nb labels = Inr cache \<Longrightarrow>
   length cache = (if cache_truthy sc \<and> uc then length labels else nb)"
  by (auto simp: cache_list_def dest: index_all_length split: if_splits sum.splits)


text \<open>
  Claim C3. For a ranked list of \<^verbatim>\<open>n_best\<close> labels, and given that the remote solve of
  each candidate has the same outcome as its sequential solve, \<^verbatim>\<open>choose_best\<close> with
  \<^verbatim>\<open>parallel=True\<close> and with \<^verbatim>\<open>parallel=False\<close> return the same: the same result
  dictionary, or the same exception.
\<close>

theorem choose_best_parallel_eq_sequential:
  assumes len: "n_best_matches opt labels"
    and same: "same_outcomes sv sv_ray opt p labels use_cache"
  shows "choose_best INFEAS_TOL sv sv_ray opt p labels True use_cache
       = choose_best INFEAS_TOL sv sv_ray opt p labels False use_cache"
proof (cases "learner_of opt")
  case None
  then show ?thesis by (simp add: choose_best_def)
next
  case (Some lr)
  note lr = this
  with len have n: "length labels = n_best lr" by (simp add: n_best_matches_def)
  show ?thesis
  proof (cases "strategies_of (encoding opt) labels")
    case (Inl e)
    with lr show ?thesis by (simp add: choose_best_def)
  next
    case (Inr strategies)
    note st = this
    show ?thesis
    proof (cases "cache_list (solver_cache opt) use_cache (n_best lr) labels")
      case (Inl e)
      with lr st show ?thesis by (simp add: choose_best_def)
    next
      case (Inr cache)
      note ca = this
      have ls: "length strategies = n_best lr"
        using strategies_of_length[OF st] n by simp
      have lc: "length cache = n_best lr"
        using cache_list_length[OF ca] n by (simp split: if_splits)
      have eq: "sv_ray p (strategies ! j) (CacheList cache)
              = sv p (strategies ! j) (CacheEntry (cache ! j))" if "j < n_best lr" for j
        using same lr st ca that n by (simp add: same_outcomes_def list_all_iff)
      have "candidate_results sv sv_ray (n_best lr) p strategies cache True
          = candidate_results sv sv_ray (n_best lr) p strategies cache False"
        unfolding candidate_results_in_range[OF ls lc] using eq by simp
      with lr st ca show ?thesis by (simp add: choose_best_def)
    qed
  qed
qed

theorem choose_best_parallel_eq_sequential_witness:
  "n_best_matches scenario_opt [0, 1, 2]
 \<and> same_outcomes scenario_sv scenario_sv scenario_opt 0 [0, 1, 2] False
 \<and> choose_best (1 / 100) scenario_sv scenario_sv scenario_opt 0 [0, 1, 2] True False
     = choose_best (1 / 100) scenario_sv scenario_sv scenario_opt 0 [0, 1, 2] False False
 \<and> choose_best (1 / 100) scenario_sv scenario_sv scenario_opt 0 [0, 1, 2] False False
     = Inr \<lparr> br_x = 12, br_time = 7, br_strategy = ''s2'', br_cost = 3, br_infeasibility = 0 \<rparr>"
proof -
  have h1: "n_best_matches scenario_opt [0, 1, 2]"
    by (simp add: n_best_matches_def scenario_opt_def scenario_learner_def)
  have h2: "same_outcomes scenario_sv scenario_sv scenario_opt 0 [0, 1, 2] False"
    by code_simp
  have v: "choose_best (1 / 100) scenario_sv scenario_sv scenario_opt 0 [0, 1, 2] False False
     = Inr \<lparr> br_x = 12, br_time = 7, br_strategy = ''s2'', br_cost = 3, br_infeasibility = 0 \<rparr>"
    by code_simp
  from choose_best_parallel_eq_sequential[OF h1 h2, of "1 / 100"] h1 h2 v
  show ?thesis by (intro conjI)
qed

subsection \<open>No candidates, failed candidates\<close>

lemma solve_sequential_no_strategies:
  "solve_sequential sv p [] cache js = (if js = [] then Inr [] else Inl IndexError)"
  by (cases js) (simp_all add: nth_err_def)

lemma pick_result_empty: "pick_result tol strategies [] = Inl ValueError"
  by (simp add: pick_result_def idx_pick_def np_where_le_def np_argmin_def)

lemma choose_best_no_candidates:
  assumes "learner_of opt = Some lr"
  shows "choose_best tol sv sv_ray opt p [] parallel use_cache
       = Inl (if parallel \<or> n_best lr = 0 then ValueError else IndexError)"
proof -
  have s: "strategies_of (encoding opt) [] = Inr []"
    by (simp add: strategies_of_def split: option.splits)
  have "\<exists>cache. cache_list (solver_cache opt) use_cache (n_best lr) [] = Inr cache"
    by (simp add: cache_list_def)
  then obtain cache where c: "cache_list (solver_cache opt) use_cache (n_best lr) [] = Inr cache"
    by blast
  have "candidate_results sv sv_ray (n_best lr) p [] cache parallel
      = (if parallel \<or> n_best lr = 0 then Inr [] else Inl IndexError)"
    by (auto simp: candidate_results_def solve_parallel_def solve_sequential_no_strategies)
  with assms s c show ?thesis
    by (simp add: choose_best_def pick_result_empty)
qed

text \<open>Without an encoding, a call raises TypeError only when there is a label to look
  up.\<close>

lemma choose_best_without_encoding:
  "choose_best (1 / 100) scenario_sv scenario_sv (scenario_opt\<lparr>encoding := None\<rparr>) 0 [] True False
     = Inl ValueError"
  "choose_best (1 / 100) scenario_sv scenario_sv (scenario_opt\<lparr>encoding := None\<rparr>) 0 [] False False
     = Inl IndexError"
  "choose_best (1 / 100) scenario_sv scenario_sv (scenario_opt\<lparr>encoding := None\<rparr>) 0 [0] False False
     = Inl TypeError"
  by code_simp+


text \<open>
  Claim C4. On an empty list of labels \<^verbatim>\<open>choose_best\<close> raises. With the solver of the
  specification, which reports a failed attempt with the sentinel as infeasibility, a
  call on a non-empty list of \<^verbatim>\<open>n_best\<close> labels in range returns a result although
  attempts have failed: a failed candidate has the sentinel as infeasibility, and when
  some candidate is feasible within the tolerance the chosen candidate is not a failed
  one.
\<close>

theorem choose_best_error_handling:
  assumes lr: "learner_of opt = Some lr" and enc: "encoding opt = Some enc"
    and ne: "labels \<noteq> []" and len: "length labels = n_best lr"
    and rng: "labels_in_range (length enc) labels"
    and crng: "cache_in_range (solver_cache opt) use_cache labels"
    and large: "INFEAS_TOL < SENTINEL"
    and sv: "sv = solve_with_strategy_spec SENTINEL attempt"
    and sv_ray: "sv_ray = solve_with_strategy_spec SENTINEL attempt_ray"
  shows "(\<exists>e. choose_best INFEAS_TOL sv sv_ray opt p [] parallel use_cache = Inl e)
       \<and> (\<exists>strategies cache results i r.
             index_all enc labels = Inr strategies
           \<and> cache_list (solver_cache opt) use_cache (n_best lr) labels = Inr cache
           \<and> candidate_results sv sv_ray (n_best lr) p strategies cache parallel = Inr results
           \<and> length results = length labels
           \<and> choose_best INFEAS_TOL sv sv_ray opt p labels parallel use_cache = Inr r
           \<and> i < length results
           \<and> br_strategy r = strategies ! i
           \<and> br_infeasibility r = cr_infeasibility (results ! i)
           \<and> (\<forall>j<length results.
                 attempt_failed (if parallel then attempt_ray p (strategies ! j) (CacheList cache)
                                 else attempt p (strategies ! j) (CacheEntry (cache ! j)))
                 \<longrightarrow> cr_infeasibility (results ! j) = SENTINEL)
           \<and> ((\<exists>j<length results. cr_infeasibility (results ! j) \<le> INFEAS_TOL)
                 \<longrightarrow> \<not> attempt_failed
                         (if parallel then attempt_ray p (strategies ! i) (CacheList cache)
                          else attempt p (strategies ! i) (CacheEntry (cache ! i)))))"
    (is "?E \<and> ?N")
proof -
  have empty: ?E
    using choose_best_no_candidates[OF lr] by blast
  from choose_best_returns[OF lr enc ne len rng crng, of sv sv_ray p parallel INFEAS_TOL]
  obtain strategies cache results i where
    h: "index_all enc labels = Inr strategies"
       "cache_list (solver_cache opt) use_cache (n_best lr) labels = Inr cache"
       "candidate_results sv sv_ray (n_best lr) p strategies cache parallel = Inr results"
       "length strategies = length labels"
       "length results = length labels"
       "idx_pick INFEAS_TOL (map cr_infeasibility results) (map cr_cost results) = Inr i"
       "i < length results"
       "choose_best INFEAS_TOL sv sv_ray opt p labels parallel use_cache
           = Inr \<lparr> br_x = cr_x (results ! i), br_time = sum_list (map cr_time results),
                   br_strategy = strategies ! i, br_cost = cr_cost (results ! i),
                   br_infeasibility = cr_infeasibility (results ! i) \<rparr>"
    by blast
  have ls: "length strategies = n_best lr" using h(4) len by simp
  have lc: "length cache = n_best lr"
    using cache_list_length[OF h(2)] len by (simp split: if_splits)
  let ?att = "\<lambda>j. if parallel then attempt_ray p (strategies ! j) (CacheList cache)
                   else attempt p (strategies ! j) (CacheEntry (cache ! j))"
  have res: "results ! j = (case ?att j of AttemptSolved r \<Rightarrow> r
                            | AttemptFailed r \<Rightarrow> r\<lparr>cr_infeasibility := SENTINEL\<rparr>)"
    if "j < length results" for j
  proof -
    from h(3) have "results = map (\<lambda>j. if parallel then sv_ray p (strategies ! j) (CacheList cache)
                       else sv p (strategies ! j) (CacheEntry (cache ! j))) [0..<n_best lr]"
      unfolding candidate_results_in_range[OF ls lc] by simp
    moreover from that h(5) len have "j < n_best lr" by simp
    ultimately show ?thesis
      by (simp add: sv sv_ray solve_with_strategy_spec_def)
  qed
  have sentinel: "cr_infeasibility (results ! j) = SENTINEL"
    if "j < length results" "attempt_failed (?att j)" for j
    using res[OF that(1)] that(2)
    by (cases parallel) (auto simp: attempt_failed_def split: solve_attempt.splits)
  have winner: "\<not> attempt_failed (?att i)"
    if "\<exists>j<length results. cr_infeasibility (results ! j) \<le> INFEAS_TOL"
  proof
    assume "attempt_failed (?att i)"
    from sentinel[OF h(7) this] have s: "cr_infeasibility (results ! i) = SENTINEL" .
    have "length (map cr_cost results) = length (map cr_infeasibility results)"
         "map cr_infeasibility results \<noteq> []"
      using h(5) ne by auto
    from idx_pick_first_min[OF this, of INFEAS_TOL] h(6) that
    have "cr_infeasibility (results ! i) \<le> INFEAS_TOL" using h(7) by auto
    with s large show False by simp
  qed
  have sentinel': "\<forall>j<length results. attempt_failed (?att j)
                 \<longrightarrow> cr_infeasibility (results ! j) = SENTINEL"
    using sentinel by blast
  have winner': "(\<exists>j<length results. cr_infeasibility (results ! j) \<le> INFEAS_TOL)
                 \<longrightarrow> \<not> attempt_failed (?att i)"
    using winner by blast
  let ?r = "\<lparr> br_x = cr_x (results ! i), br_time = sum_list (map cr_time results),
              br_strategy = strategies ! i, br_cost = cr_cost (results ! i),
              br_infeasibility = cr_infeasibility (results ! i) \<rparr>"
  have s: "br_strategy ?r = strategies ! i"
    and f: "br_infeasibility ?r = cr_infeasibility (results ! i)"
    by simp_all
  have nonempty: ?N
    apply (rule exI[of _ strategies], rule exI[of _ cache], rule exI[of _ results],
           rule exI[of _ i], rule exI[of _ ?r])
    apply (intro conjI)
             apply (rule h(1))
            apply (rule h(2))
           apply (rule h(3))
          apply (rule h(5))
         apply (rule h(8))
        apply (rule h(7))
       apply (rule s)
      apply (rule f)
     apply (rule sentinel')
    apply (rule winner')
    done
  show ?thesis by (rule conjI[OF empty nonempty])
qed

theorem choose_best_error_handling_witness:
  "learner_of scenario_opt = Some scenario_learner
 \<and> encoding scenario_opt = Some [''s0'', ''s1'', ''s2'']
 \<and> [1, 0, 2] \<noteq> ([] :: int list)
 \<and> length [1, 0, 2 :: int] = n_best scenario_learner
 \<and> labels_in_range (length [''s0'', ''s1'', ''s2'']) [1, 0, 2]
 \<and> cache_in_range (solver_cache scenario_opt) False [1, 0, 2]
 \<and> (1 / 100 :: real) < 1000000
 \<and> (\<exists>e. choose_best (1 / 100) (solve_with_strategy_spec 1000000 scenario_attempt)
            (solve_with_strategy_spec 1000000 scenario_attempt) scenario_opt 0 [] False False
          = (Inl e :: error + (nat, string) best_result))
 \<and> (\<exists>strategies cache results i r.
             index_all [''s0'', ''s1'', ''s2''] [1, 0, 2] = Inr strategies
           \<and> cache_list (solver_cache scenario_opt) False (n_best scenario_learner) [1, 0, 2]
               = Inr cache
           \<and> candidate_results (solve_with_strategy_spec 1000000 scenario_attempt)
                (solve_with_strategy_spec 1000000 scenario_attempt)
                (n_best scenario_learner) 0 strategies cache False = Inr results
           \<and> length results = length [1, 0, 2 :: int]
           \<and> choose_best (1 / 100) (solve_with_strategy_spec 1000000 scenario_attempt)
                (solve_with_strategy_spec 1000000 scenario_attempt) scenario_opt 0 [1, 0, 2]
                False False = Inr r
           \<and> i < length results
           \<and> br_strategy r = strategies ! i
           \<and> br_infeasibility r = cr_infeasibility (results ! i)
           \<and> (\<forall>j<length results.
                 attempt_failed (if False then scenario_attempt 0 (strategies ! j) (CacheList cache)
                                 else scenario_attempt 0 (strategies ! j) (CacheEntry (cache ! j)))
                 \<longrightarrow> cr_infeasibility (results ! j) = 1000000)
           \<and> ((\<exists>j<length results. cr_infeasibility (results ! j) \<le> 1 / 100)
                 \<longrightarrow> \<not> attempt_failed
                         (if False then scenario_attempt 0 (strategies ! i) (CacheList cache)
                          else scenario_attempt 0 (strategies ! i) (CacheEntry (cache ! i)))))"
proof -
  have h1: "learner_of scenario_opt = Some scenario_learner"
    and h2: "encoding scenario_opt = Some [''s0'', ''s1'', ''s2'']"
    by (simp_all add: scenario_opt_def)
  have h3: "[1, 0, 2] \<noteq> ([] :: int list)" by simp
  have h4: "length [1, 0, 2 :: int] = n_best scenario_learner"
    by (simp add: scenario_learner_def)
  have h5: "labels_in_range (length [''s0'', ''s1'', ''s2'']) [1, 0, 2]"
    by (simp add: labels_in_range_def)
  have h6: "cache_in_range (solver_cache scenario_opt) False [1, 0, 2]"
    by (simp add: cache_in_range_def)
  have h7: "(1 / 100 :: real) < 1000000" by simp
  note t = choose_best_error_handling[OF h1 h2 h3 h4 h5 h6 h7 refl refl,
      of scenario_attempt scenario_attempt 0 False]
  show ?thesis
    apply (intro conjI)
            apply (rule h1)
           apply (rule h2)
          apply (rule h3)
         apply (rule h4)
        apply (rule h5)
       apply (rule h6)
      apply (rule h7)
     apply (rule conjunct1[OF t])
    apply (rule conjunct2[OF t])
    done
qed

subsection \<open>solve\<close>

text \<open>
  Claim C10. Called with \<^verbatim>\<open>use_cache=True\<close> while the solver cache is \<^verbatim>\<open>None\<close> or
  empty, \<^verbatim>\<open>solve\<close> raises ValueError, whatever the learner and the solver are: the check
  comes before the prediction and before the loop over the points, so no candidate is
  solved.
\<close>

theorem solve_requires_cache:
  assumes "solver_cache opt = None \<or> solver_cache opt = Some []"
  shows "solve INFEAS_TOL sv sv_ray predict t_elapsed opt X True = Inl ValueError"
  using assms by (auto simp: solve_def cache_truthy_def Let_def)

theorem solve_requires_cache_witness:
  "(solver_cache scenario_opt = None \<or> solver_cache scenario_opt = Some [])
 \<and> solve (1 / 100) scenario_sv scenario_sv scenario_predict 0 scenario_opt
       (DataFrame [0, 1]) True = Inl ValueError"
proof -
  have h: "solver_cache scenario_opt = None \<or> solver_cache scenario_opt = Some []"
    by (simp add: scenario_opt_def)
  from solve_requires_cache[OF h, of "1 / 100" scenario_sv scenario_sv scenario_predict 0
      "DataFrame [0, 1]"] h
  show ?thesis by simp
qed

lemma solve_points_each:
  assumes "i + length ps \<le> length classes"
    and "\<forall>k<length ps. \<exists>r. choose_best tol sv sv_ray opt (ps ! k) (classes ! (i + k)) False use_cache
                              = Inr r"
  shows "\<exists>rs. solve_points tol sv sv_ray opt use_cache classes ps i = Inr rs
            \<and> length rs = length ps
            \<and> (\<forall>k<length ps. choose_best tol sv sv_ray opt (ps ! k) (classes ! (i + k)) False use_cache
                              = Inr (rs ! k))"
  using assms
proof (induction ps arbitrary: i)
  case Nil
  then show ?case by simp
next
  case (Cons q ps)
  from Cons.prems(2) obtain r where
    r: "choose_best tol sv sv_ray opt q (classes ! i) False use_cache = Inr r"
    by fastforce
  have "Suc i + length ps \<le> length classes" using Cons.prems(1) by simp
  moreover have "\<forall>k<length ps. \<exists>r. choose_best tol sv sv_ray opt (ps ! k) (classes ! (Suc i + k))
        False use_cache = Inr r"
  proof (intro allI impI)
    fix k assume "k < length ps"
    then have "Suc k < length (q # ps)" by simp
    with Cons.prems(2) have "\<exists>r. choose_best tol sv sv_ray opt ((q # ps) ! Suc k)
        (classes ! (i + Suc k)) False use_cache = Inr r" by blast
    then show "\<exists>r. choose_best tol sv sv_ray opt (ps ! k) (classes ! (Suc i + k))
        False use_cache = Inr r" by simp
  qed
  ultimately obtain rs where
    rs: "solve_points tol sv sv_ray opt use_cache classes ps (Suc i) = Inr rs"
        "length rs = length ps"
        "\<forall>k<length ps. choose_best tol sv sv_ray opt (ps ! k) (classes ! (Suc i + k)) False use_cache
                              = Inr (rs ! k)"
    using Cons.IH[of "Suc i"] by blast
  have i: "i < length classes" using Cons.prems(1) by simp
  have "solve_points tol sv sv_ray opt use_cache classes (q # ps) i = Inr (r # rs)"
    using r rs(1) i by (simp add: nth_err_def)
  moreover have "\<forall>k<length (q # ps). choose_best tol sv sv_ray opt ((q # ps) ! k)
       (classes ! (i + k)) False use_cache = Inr ((r # rs) ! k)"
  proof (intro allI impI)
    fix k assume k: "k < length (q # ps)"
    show "choose_best tol sv sv_ray opt ((q # ps) ! k)
       (classes ! (i + k)) False use_cache = Inr ((r # rs) ! k)"
    proof (cases k)
      case 0
      with r show ?thesis by simp
    next
      case (Suc m)
      with k rs(3) show ?thesis by simp
    qed
  qed
  ultimately show ?case using rs(2) by (intro exI[of _ "r # rs"]) simp
qed

lemma single_or_many:
  assumes "rs \<noteq> []"
  shows "(case map f rs of [r] \<Rightarrow> Inr (Single r) | _ \<Rightarrow> Inr (Many (map f rs)))
       = (Inr (if length rs = 1 then Single (f (rs ! 0)) else Many (map f rs))
            :: error + ('x, 's) solve_output)"
proof (cases rs)
  case Nil
  with assms show ?thesis by simp
next
  case (Cons a as)
  then show ?thesis by (cases as) simp_all
qed

text \<open>
  Claim C9. On an input of at least one point whose ranked labels are well formed,
  \<^verbatim>\<open>solve\<close> returns: for exactly one point (a Series or a frame of one row) the result
  dictionary of that point itself, for more than one point the list of the result
  dictionaries in input order. Entry \<open>i\<close> is the result of \<^verbatim>\<open>choose_best\<close> for point \<open>i\<close>,
  with the prediction time added.
\<close>

theorem solve_single_or_list:
  assumes lr: "learner_of opt = Some lr" and enc: "encoding opt = Some enc"
    and rows: "rows_of X \<noteq> []"
    and cache: "\<not> (use_cache \<and> \<not> cache_truthy (solver_cache opt))"
    and cls: "length (rows_of X) \<le> length (predict (rows_of X))"
    and labs: "list_all (\<lambda>labels. labels \<noteq> [] \<and> length labels = n_best lr
                  \<and> labels_in_range (length enc) labels
                  \<and> cache_in_range (solver_cache opt) use_cache labels)
                (take (length (rows_of X)) (predict (rows_of X)))"
  shows "\<exists>rs. length rs = length (rows_of X)
     \<and> (\<forall>i<length rs. choose_best INFEAS_TOL sv sv_ray opt (rows_of X ! i)
                         (predict (rows_of X) ! i) False use_cache = Inr (rs ! i))
     \<and> solve INFEAS_TOL sv sv_ray predict t_elapsed opt X use_cache
       = Inr (if length (rows_of X) = 1
              then Single (append_predict_time (t_elapsed / real (length (rows_of X))) (rs ! 0))
              else Many (map (append_predict_time (t_elapsed / real (length (rows_of X)))) rs))"
proof -
  let ?rows = "rows_of X" and ?classes = "predict (rows_of X)"
  have each: "\<forall>k<length ?rows. \<exists>r. choose_best INFEAS_TOL sv sv_ray opt (?rows ! k)
                  (?classes ! (0 + k)) False use_cache = Inr r"
  proof (intro allI impI)
    fix k assume k: "k < length ?rows"
    with cls have "?classes ! k \<in> set (take (length ?rows) ?classes)"
      by (metis (no_types, lifting) in_set_conv_nth length_take min.absorb2 nth_take)
    with labs have w: "?classes ! k \<noteq> []" "length (?classes ! k) = n_best lr"
        "labels_in_range (length enc) (?classes ! k)"
        "cache_in_range (solver_cache opt) use_cache (?classes ! k)"
      by (auto simp: list_all_iff)
    from choose_best_returns[OF lr enc w, of sv sv_ray "?rows ! k" False INFEAS_TOL]
    show "\<exists>r. choose_best INFEAS_TOL sv sv_ray opt (?rows ! k)
                  (?classes ! (0 + k)) False use_cache = Inr r"
      by auto
  qed
  have "0 + length ?rows \<le> length ?classes" using cls by simp
  from solve_points_each[OF this each] obtain rs where
    rs: "solve_points INFEAS_TOL sv sv_ray opt use_cache ?classes ?rows 0 = Inr rs"
        "length rs = length ?rows"
        "\<forall>k<length ?rows. choose_best INFEAS_TOL sv sv_ray opt (?rows ! k) (?classes ! (0 + k))
                             False use_cache = Inr (rs ! k)"
    by blast
  from rs(2) rows have ne: "rs \<noteq> []" by auto
  have "solve INFEAS_TOL sv sv_ray predict t_elapsed opt X use_cache
       = Inr (if length rs = 1
              then Single (append_predict_time (t_elapsed / real (length ?rows)) (rs ! 0))
              else Many (map (append_predict_time (t_elapsed / real (length ?rows))) rs))"
    using cache lr rows rs(1)
    by (simp add: solve_def Let_def
          single_or_many[OF ne, of "append_predict_time (t_elapsed / real (length ?rows))"])
  with rs(2,3) show ?thesis
    by (intro exI[of _ rs]) simp
qed

theorem solve_single_or_list_witness:
  "learner_of scenario_opt = Some scenario_learner
 \<and> encoding scenario_opt = Some [''s0'', ''s1'', ''s2'']
 \<and> rows_of (Series (1::nat)) \<noteq> []
 \<and> \<not> (False \<and> \<not> cache_truthy (solver_cache scenario_opt))
 \<and> length (rows_of (Series (1::nat))) \<le> length (scenario_predict (rows_of (Series 1)))
 \<and> list_all (\<lambda>labels. labels \<noteq> [] \<and> length labels = n_best scenario_learner
                  \<and> labels_in_range (length [''s0'', ''s1'', ''s2'']) labels
                  \<and> cache_in_range (solver_cache scenario_opt) False labels)
       (take (length (rows_of (Series (1::nat)))) (scenario_predict (rows_of (Series 1))))
 \<and> (\<exists>rs. length rs = length (rows_of (Series (1::nat)))
     \<and> (\<forall>i<length rs. choose_best (1 / 100) scenario_sv scenario_sv scenario_opt
                         (rows_of (Series 1) ! i)
                         (scenario_predict (rows_of (Series 1)) ! i) False False = Inr (rs ! i))
     \<and> solve (1 / 100) scenario_sv scenario_sv scenario_predict (1 / 2) scenario_opt (Series 1) False
       = Inr (if length (rows_of (Series (1::nat))) = 1
              then Single (append_predict_time (1 / 2 / real (length (rows_of (Series (1::nat)))))
                             (rs ! 0))
              else Many (map (append_predict_time
                                (1 / 2 / real (length (rows_of (Series (1::nat)))))) rs)))"
proof -
  have h1: "learner_of scenario_opt = Some scenario_learner"
    and h2: "encoding scenario_opt = Some [''s0'', ''s1'', ''s2'']"
    by (simp_all add: scenario_opt_def)
  have h3: "rows_of (Series (1::nat)) \<noteq> []" by (simp add: rows_of_def)
  have h4: "\<not> (False \<and> \<not> cache_truthy (solver_cache scenario_opt))" by simp
  have h5: "length (rows_of (Series (1::nat))) \<le> length (scenario_predict (rows_of (Series 1)))"
    by (simp add: rows_of_def scenario_predict_def)
  have h6: "list_all (\<lambda>labels. labels \<noteq> [] \<and> length labels = n_best scenario_learner
                  \<and> labels_in_range (length [''s0'', ''s1'', ''s2'']) labels
                  \<and> cache_in_range (solver_cache scenario_opt) False labels)
       (take (length (rows_of (Series (1::nat)))) (scenario_predict (rows_of (Series 1))))"
    by (simp add: rows_of_def scenario_predict_def scenario_learner_def labels_in_range_def
          cache_in_range_def)
  note t = solve_single_or_list[where predict = scenario_predict and X = "Series 1"
      and INFEAS_TOL = "1 / 100" and sv = scenario_sv and sv_ray = scenario_sv
      and t_elapsed = "1 / 2", OF h1 h2 h3 h4 h5 h6]
  show ?thesis
    apply (intro conjI)
          apply (rule h1)
         apply (rule h2)
        apply (rule h3)
       apply (rule h4)
      apply (rule h5)
     apply (rule h6)
    apply (rule t)
    done
qed

lemma solve_one_point_value:
  "solve (1 / 100) scenario_sv scenario_sv scenario_predict (1 / 2) scenario_opt (Series 1) False
     = Inr (Single \<lparr> tr_x = 12, tr_time = 15 / 2, tr_strategy = ''s2'', tr_cost = 3,
                     tr_infeasibility = 0, tr_pred_time = 1 / 2, tr_solve_time = 7 \<rparr>)"
  by code_simp

lemma solve_two_points_value:
  "solve (1 / 100) scenario_sv scenario_sv scenario_predict (1 / 2) scenario_opt
       (DataFrame [1, 0]) False
     = Inr (Many [\<lparr> tr_x = 12, tr_time = 29 / 4, tr_strategy = ''s2'', tr_cost = 3,
                     tr_infeasibility = 0, tr_pred_time = 1 / 4, tr_solve_time = 7 \<rparr>,
                  \<lparr> tr_x = 12, tr_time = 29 / 4, tr_strategy = ''s2'', tr_cost = 3,
                     tr_infeasibility = 0, tr_pred_time = 1 / 4, tr_solve_time = 7 \<rparr>])"
  by code_simp

subsection \<open>accuracy\<close>

lemma point_correct_spec:
  assumes "er_strategy r_test \<noteq> None"
  shows "point_correct tol stol r_pred r_test
       = Inr (if spec_correct tol stol r_pred r_test then 1 else 0)"
  using assms
  by (auto simp: point_correct_def spec_correct_def suboptimality_def split: option.splits)

lemma idx_correct_loop_spec:
  assumes "list_all (\<lambda>(p, t). er_strategy t \<noteq> None) pts"
  shows "idx_correct_loop tol stol pts
       = Inr (map (\<lambda>(p, t). if spec_correct tol stol p t then 1 else 0) pts)"
  using assms by (induction pts) (auto simp: point_correct_spec)

lemma sum_list_flags:
  "sum_list (map (\<lambda>x. if P x then 1 else 0) xs) = length (filter P xs)"
  by (induction xs) auto

text \<open>
  Claim C6. For predicted and ground-truth results of equal length, each ground-truth
  result carrying its strategy, \<^verbatim>\<open>accuracy\<close> returns the fraction of the points at which
  the predicted strategy equals the true one, or the prediction is feasible within
  \<^verbatim>\<open>INFEAS_TOL\<close> and its suboptimality \<open>(cost_pred - cost_true) / (|cost_true| + 1e-10)\<close> is
  within \<^verbatim>\<open>SUBOPT_TOL\<close>; with no points the fraction is not a number.
\<close>

theorem accuracy_is_fraction:
  assumes len: "length results_pred = length results_test"
    and strat: "list_all (\<lambda>t. er_strategy t \<noteq> None) results_test"
  shows "accuracy INFEAS_TOL SUBOPT_TOL results_pred results_test
       = Inr (if results_pred = [] then None
              else Some (real (length (filter (\<lambda>(p, t). spec_correct INFEAS_TOL SUBOPT_TOL p t)
                                        (zip results_pred results_test)))
                         / real (length results_pred)),
              map (\<lambda>(p, t). if spec_correct INFEAS_TOL SUBOPT_TOL p t then 1 else 0)
                (zip results_pred results_test))"
proof -
  let ?pts = "zip results_pred results_test"
  have "list_all (\<lambda>(p, t). er_strategy t \<noteq> None) ?pts"
    using strat by (auto simp: list_all_iff dest: set_zip_rightD)
  from idx_correct_loop_spec[OF this]
  have loop: "idx_correct_loop INFEAS_TOL SUBOPT_TOL ?pts
       = Inr (map (\<lambda>(p, t). if spec_correct INFEAS_TOL SUBOPT_TOL p t then 1 else 0) ?pts)" .
  have cnt: "sum_list (map (\<lambda>(p, t). if spec_correct INFEAS_TOL SUBOPT_TOL p t then 1 else 0) ?pts)
       = length (filter (\<lambda>(p, t). spec_correct INFEAS_TOL SUBOPT_TOL p t) ?pts)"
    using sum_list_flags[of "\<lambda>(p, t). spec_correct INFEAS_TOL SUBOPT_TOL p t" ?pts]
    by (simp add: case_prod_unfold)
  have ne: "results_pred = [] \<longleftrightarrow> results_test = []"
    using len by (metis length_0_conv)
  show ?thesis
    using len loop cnt ne by (simp add: accuracy_def np_div_def)
qed

theorem accuracy_is_fraction_witness:
  "length acc_pred = length acc_test
 \<and> list_all (\<lambda>t. er_strategy t \<noteq> None) acc_test
 \<and> accuracy (1 / 10000) (1 / 10000) acc_pred acc_test = Inr (Some (1 / 2), [1, 1, 0, 0])"
proof -
  have h1: "length acc_pred = length acc_test"
    by (simp add: acc_pred_def acc_test_def)
  have h2: "list_all (\<lambda>t. er_strategy t \<noteq> None) acc_test"
    by (simp add: acc_test_def)
  have v: "(if acc_pred = [] then None
              else Some (real (length (filter (\<lambda>(p, t). spec_correct (1 / 10000) (1 / 10000) p t)
                                        (zip acc_pred acc_test)))
                         / real (length acc_pred)),
              map (\<lambda>(p, t). if spec_correct (1 / 10000) (1 / 10000) p t then 1 else 0)
                (zip acc_pred acc_test))
         = (Some (1 / 2), [1, 1, 0, 0 :: nat])"
    by code_simp
  from accuracy_is_fraction[OF h1 h2, of "1 / 10000" "1 / 10000"] v h1 h2
  show ?thesis by simp
qed

subsection \<open>performance\<close>

lemma solve_points_length:
  "solve_points tol sv sv_ray opt use_cache classes ps i = Inr rs \<Longrightarrow> length rs = length ps"
  by (induction ps arbitrary: i rs) (auto split: sum.splits)

lemma solve_Many_length:
  assumes "solve tol sv sv_ray predict t opt X use_cache = Inr (Many rs)"
  shows "length rs = length (rows_of X)"
  using assms
  by (auto simp: solve_def Let_def split: if_splits option.splits sum.splits list.splits
           dest!: solve_points_length)

lemma np_max_Max: "xs \<noteq> [] \<Longrightarrow> np_max xs = Inr (Max (set xs))"
proof (cases xs)
  case Nil
  assume "xs \<noteq> []"
  with Nil show ?thesis by simp
next
  case (Cons v vs)
  have "Max (set (v # vs)) = fold max vs v" by (rule Max.set_eq_fold)
  with Cons show ?thesis by (simp add: np_max_def)
qed

lemma np_mean_nonempty: "xs \<noteq> [] \<Longrightarrow> np_mean xs = Some (sum_list xs / real (length xs))"
  by (simp add: np_mean_def np_div_def)

lemma accuracy_lengths:
  "accuracy tol stol ps ts = Inr a \<Longrightarrow> length ps = length ts"
  by (simp add: accuracy_def Let_def split: if_splits)

text \<open>
  Claim C5, as the code has it. When \<^verbatim>\<open>performance\<close> returns, there are at least two test
  points, \<^verbatim>\<open>avg_time_improv\<close> is the mean true solve time divided by the mean predicted
  total time, \<^verbatim>\<open>max_time_improv\<close> is the largest true solve time divided by the largest
  predicted total time, and the ratio of the two times of each point is the column
  \<^verbatim>\<open>time_improvement\<close> of the detailed frame.
\<close>

theorem performance_time_improvement:
  assumes "performance INFEAS_TOL SUBOPT_TOL sv sv_ray predict t_elapsed solve_parametric opt
             theta use_cache = Inr (summary, detail)"
  shows "\<exists>results_pred.
           solve INFEAS_TOL sv sv_ray predict t_elapsed opt (DataFrame theta) use_cache
             = Inr (Many results_pred)
         \<and> length results_pred = length theta
         \<and> length (solve_parametric theta) = length theta
         \<and> 2 \<le> length theta
         \<and> ps_avg_time_improv summary
             = np_div (sum_list (map er_time (solve_parametric theta)) / real (length theta))
                      (sum_list (map tr_time results_pred) / real (length theta))
         \<and> ps_max_time_improv summary
             = np_div (Max (set (map er_time (solve_parametric theta))))
                      (Max (set (map tr_time results_pred)))
         \<and> pd_time_improvement detail
             = map (\<lambda>(r_test, r_pred). np_div (er_time r_test) (tr_time r_pred))
                 (zip (solve_parametric theta) results_pred)"
proof -
  let ?S = "solve INFEAS_TOL sv sv_ray predict t_elapsed opt (DataFrame theta) use_cache"
  from assms obtain rs where S: "?S = Inr (Many rs)"
    by (auto simp: performance_def Let_def split: sum.splits solve_output.splits)
  from solve_Many_length[OF S] have n: "length rs = length theta"
    by (simp add: rows_of_def)
  let ?tt = "map er_time (solve_parametric theta)" and ?tp = "map tr_time rs"
  from assms S obtain a where
    A: "accuracy INFEAS_TOL SUBOPT_TOL rs (solve_parametric theta) = Inr a"
    by (auto simp: performance_def Let_def split: sum.splits)
  from accuracy_lengths[OF A] n have m: "length (solve_parametric theta) = length theta"
    by simp
  have two: "2 \<le> length theta"
  proof (rule ccontr)
    assume "\<not> 2 \<le> length theta"
    then have "length theta = 0 \<or> length theta = 1" by arith
    then show False
    proof
      assume "length theta = 0"
      then have "?S = Inl ValueError \<or> ?S = Inl AttributeError \<or> ?S = Inl ZeroDivisionError"
        by (auto simp: solve_def Let_def rows_of_def split: option.splits)
      with S show False by auto
    next
      assume "length theta = 1"
      with n obtain r where "rs = [r]" by (cases rs) auto
      with S show False
        by (auto simp: solve_def Let_def split: if_splits option.splits sum.splits list.splits)
    qed
  qed
  have ne: "?tt \<noteq> []" "?tp \<noteq> []" using two n m by auto
  have firsts: "first_n ?tt (length theta) = Inr ?tt" "first_n ?tp (length theta) = Inr ?tp"
       "first_n (map tr_cost rs) (length theta) = Inr (map tr_cost rs)"
       "first_n (map er_cost (solve_parametric theta)) (length theta)
          = Inr (map er_cost (solve_parametric theta))"
    using n m by (simp_all add: first_n_def)
  have zipmap: "map (\<lambda>(a, b). np_div a b) (zip ?tt ?tp)
      = map (\<lambda>(r_test, r_pred). np_div (er_time r_test) (tr_time r_pred))
          (zip (solve_parametric theta) rs)"
    by (simp add: zip_map_map case_prod_unfold)
  obtain acc idx where a: "a = (acc, idx)" by (cases a)
  from assms have
    "summary = \<lparr> ps_n_test = length theta, ps_n_correct = sum_list idx,
                 ps_accuracy = map_option (\<lambda>a. 100 * a) acc,
                 ps_mean_time_pred = np_mean ?tp, ps_mean_time_full = np_mean ?tt,
                 ps_avg_time_improv = np_div_opt (np_mean ?tt) (np_mean ?tp),
                 ps_max_time_improv = np_div (Max (set ?tt)) (Max (set ?tp)) \<rparr>
   \<and> detail = \<lparr> pd_correct = idx,
                 pd_subopt = map (\<lambda>(a, b). suboptimality a b)
                    (zip (map tr_cost rs) (map er_cost (solve_parametric theta))),
                 pd_time_pred = ?tp, pd_time_full = ?tt,
                 pd_time_improvement = map (\<lambda>(a, b). np_div a b) (zip ?tt ?tp) \<rparr>"
    unfolding performance_def Let_def S
    by (simp add: firsts A a np_max_Max[OF ne(1)] np_max_Max[OF ne(2)])
  then have
    avg: "ps_avg_time_improv summary = np_div_opt (np_mean ?tt) (np_mean ?tp)"
    and mx: "ps_max_time_improv summary = np_div (Max (set ?tt)) (Max (set ?tp))"
    and ti: "pd_time_improvement detail = map (\<lambda>(a, b). np_div a b) (zip ?tt ?tp)"
    by simp_all
  have avg': "ps_avg_time_improv summary
       = np_div (sum_list ?tt / real (length theta)) (sum_list ?tp / real (length theta))"
    using avg np_mean_nonempty[OF ne(1)] np_mean_nonempty[OF ne(2)] n m
    by (simp add: np_div_opt_def)
  show ?thesis
    apply (rule exI[of _ rs])
    apply (intro conjI)
          apply (rule S)
         apply (rule n)
        apply (rule m)
       apply (rule two)
      apply (rule avg')
     apply (rule mx)
    apply (simp only: ti zipmap)
    done
qed

theorem performance_time_improvement_witness:
  "performance (1 / 10000) (1 / 10000) perf_sv perf_sv perf_predict 0 perf_exact perf_opt
      [0, 1] False
    = Inr (\<lparr> ps_n_test = 2, ps_n_correct = 2, ps_accuracy = Some 100,
             ps_mean_time_pred = Some (3 / 2), ps_mean_time_full = Some (5 / 2),
             ps_avg_time_improv = Some (5 / 3), ps_max_time_improv = Some 2 \<rparr>,
           \<lparr> pd_correct = [1, 1], pd_subopt = [0, 0], pd_time_pred = [1, 2],
             pd_time_full = [4, 1], pd_time_improvement = [Some 4, Some (1 / 2)] \<rparr>)
 \<and> (\<exists>results_pred.
           solve (1 / 10000) perf_sv perf_sv perf_predict 0 perf_opt (DataFrame [0, 1]) False
             = Inr (Many results_pred)
         \<and> length results_pred = length [0, 1 :: nat]
         \<and> length (perf_exact [0, 1]) = length [0, 1 :: nat]
         \<and> 2 \<le> length [0, 1 :: nat]
         \<and> Some (5 / 3)
             = np_div (sum_list (map er_time (perf_exact [0, 1])) / real (length [0, 1 :: nat]))
                      (sum_list (map tr_time results_pred) / real (length [0, 1 :: nat]))
         \<and> Some 2
             = np_div (Max (set (map er_time (perf_exact [0, 1]))))
                      (Max (set (map tr_time results_pred)))
         \<and> [Some 4, Some (1 / 2)]
             = map (\<lambda>(r_test, r_pred). np_div (er_time r_test) (tr_time r_pred))
                 (zip (perf_exact [0, 1]) results_pred))"
proof -
  have run: "performance (1 / 10000) (1 / 10000) perf_sv perf_sv perf_predict 0 perf_exact perf_opt
      [0, 1] False
    = Inr (\<lparr> ps_n_test = 2, ps_n_correct = 2, ps_accuracy = Some 100,
             ps_mean_time_pred = Some (3 / 2), ps_mean_time_full = Some (5 / 2),
             ps_avg_time_improv = Some (5 / 3), ps_max_time_improv = Some 2 \<rparr>,
           \<lparr> pd_correct = [1, 1], pd_subopt = [0, 0], pd_time_pred = [1, 2],
             pd_time_full = [4, 1], pd_time_improvement = [Some 4, Some (1 / 2)] \<rparr>)"
    by code_simp
  from performance_time_improvement[OF run] run show ?thesis by simp
qed

text \<open>
  Claim C5, as stated, fails: for true solve times \<open>4, 1\<close> and predicted total times
  \<open>1, 2\<close> the ratios are \<open>4\<close> and \<open>1/2\<close>, with mean \<open>9/4\<close> and maximum \<open>4\<close>, while
  \<^verbatim>\<open>performance\<close> reports \<open>5/3\<close> and \<open>2\<close>.
\<close>

theorem performance_speedup_counterexample:
  "performance (1 / 10000) (1 / 10000) perf_sv perf_sv perf_predict 0 perf_exact perf_opt
      [0, 1] False
    = Inr (\<lparr> ps_n_test = 2, ps_n_correct = 2, ps_accuracy = Some 100,
             ps_mean_time_pred = Some (3 / 2), ps_mean_time_full = Some (5 / 2),
             ps_avg_time_improv = Some (5 / 3), ps_max_time_improv = Some 2 \<rparr>,
           \<lparr> pd_correct = [1, 1], pd_subopt = [0, 0], pd_time_pred = [1, 2],
             pd_time_full = [4, 1], pd_time_improvement = [Some 4, Some (1 / 2)] \<rparr>)
 \<and> claimed_avg_speedup [4, 1] [1, 2] = Some (9 / 4)
 \<and> claimed_max_speedup [4, 1] [1, 2] = Inr 4
 \<and> Some (5 / 3) \<noteq> claimed_avg_speedup [4, 1] [1, 2]
 \<and> Inr 2 \<noteq> claimed_max_speedup [4, 1] [1, 2]"
  by code_simp

subsection \<open>cache\_factors\<close>

lemma representative_cache_update [simp]:
  "representative (opt\<lparr>solver_cache := c\<rparr>) k = representative opt k"
  by (simp add: representative_def split: option.splits sum.splits)

lemma cache_for_cache_update [simp]:
  "cache_for problem_data factorized (opt\<lparr>solver_cache := c\<rparr>) enc k
     = cache_for problem_data factorized opt enc k"
  by (simp add: cache_for_def split: sum.splits)

lemma cache_loop_stops:
  assumes "map (cache_for problem_data factorized opt enc) js = map Inr es"
    and "cache_for problem_data factorized opt enc k = Inl e"
  shows "cache_loop problem_data factorized enc (opt\<lparr>solver_cache := Some acc\<rparr>) (js @ k # ks)
       = (Some e, opt\<lparr>solver_cache := Some (acc @ es)\<rparr>)"
  using assms
proof (induction js arbitrary: acc es)
  case Nil
  then show ?case by simp
next
  case (Cons j js)
  from Cons.prems(1) obtain c es' where es: "es = c # es'"
    and c: "cache_for problem_data factorized opt enc j = Inr c"
    and rest: "map (cache_for problem_data factorized opt enc) js = map Inr es'"
    by (cases es) auto
  from Cons.IH[OF rest Cons.prems(2), of "acc @ [c]"] c es show ?case by simp
qed

lemma cache_loop_completes:
  assumes "map (cache_for problem_data factorized opt enc) js = map Inr es"
  shows "cache_loop problem_data factorized enc (opt\<lparr>solver_cache := Some acc\<rparr>) js
       = (None, opt\<lparr>solver_cache := Some (acc @ es)\<rparr>)"
  using assms
proof (induction js arbitrary: acc es)
  case Nil
  then show ?case by simp
next
  case (Cons j js)
  from Cons.prems(1) obtain c es' where es: "es = c # es'"
    and c: "cache_for problem_data factorized opt enc j = Inr c"
    and rest: "map (cache_for problem_data factorized opt enc) js = map Inr es'"
    by (cases es) auto
  from Cons.IH[OF rest, of "acc @ [c]"] c es show ?case by simp
qed

lemma cache_factors_completes:
  assumes "encoding opt = Some enc"
    and "map (cache_for problem_data factorized opt enc) [0..<length enc] = map Inr entries"
  shows "cache_factors problem_data factorized opt = (None, opt\<lparr>solver_cache := Some entries\<rparr>)"
  using cache_loop_completes[OF assms(2), of "[]"] assms(1)
  by (simp add: cache_factors_def)

text \<open>
  Claim C7, as the code has it. When the factorization of strategy \<open>k\<close> raises, after the
  strategies before \<open>k\<close> were cached, \<^verbatim>\<open>cache_factors\<close> raises that exception: the
  construction stops, and the solver cache holds the entries of the strategies before
  \<open>k\<close> only, none for \<open>k\<close> and none for the strategies after it.
\<close>

theorem cache_factors_stops_at_failure:
  assumes enc: "encoding opt = Some enc" and k: "k < length enc"
    and before: "map (cache_for problem_data factorized opt enc) [0..<k] = map Inr entries"
    and theta: "representative opt k = Inr theta"
    and fail: "factorized (fst (problem_data theta (enc ! k))) = Inl e"
  shows "cache_factors problem_data factorized opt
       = (Some e, opt\<lparr>solver_cache := Some entries\<rparr>)"
proof -
  have at_k: "cache_for problem_data factorized opt enc k = Inl e"
    using k theta fail by (auto simp: cache_for_def nth_err_def split: prod.splits)
  have "[0..<k + (length enc - k)] = [0..<k] @ [k..<k + (length enc - k)]"
    by (rule upt_add_eq_append) simp
  with k have range: "[0..<length enc] = [0..<k] @ k # [Suc k..<length enc]"
    by (simp add: upt_conv_Cons)
  from cache_loop_stops[OF before at_k, of "[]" "[Suc k..<length enc]"] enc range
  show ?thesis by (simp add: cache_factors_def)
qed

theorem cache_factors_stops_at_failure_witness:
  "encoding cf_opt = Some [''s0'', ''s1'']
 \<and> 1 < length [''s0'', ''s1'']
 \<and> map (cache_for cf_problem_data (cf_factorized 1) cf_opt [''s0'', ''s1'']) [0..<1]
     = map Inr [\<lparr> factors = 0, inverse_data = (), chain = () \<rparr>]
 \<and> representative cf_opt 1 = Inr 1
 \<and> cf_factorized 1 (fst (cf_problem_data 1 ([''s0'', ''s1''] ! 1))) = Inl RuntimeError
 \<and> cache_factors cf_problem_data (cf_factorized 1) cf_opt
     = (Some RuntimeError,
        cf_opt\<lparr>solver_cache := Some [\<lparr> factors = 0, inverse_data = (), chain = () \<rparr>]\<rparr>)"
proof -
  have h1: "encoding cf_opt = Some [''s0'', ''s1'']" by (simp add: cf_opt_def)
  have h2: "1 < length [''s0'', ''s1'']" by simp
  have h3: "map (cache_for cf_problem_data (cf_factorized 1) cf_opt [''s0'', ''s1'']) [0..<1]
     = map Inr [\<lparr> factors = 0, inverse_data = (), chain = () \<rparr>]"
    by code_simp
  have h4: "representative cf_opt 1 = Inr 1" by code_simp
  have h5: "cf_factorized 1 (fst (cf_problem_data 1 ([''s0'', ''s1''] ! 1))) = Inl RuntimeError"
    by (simp add: cf_factorized_def cf_problem_data_def)
  from cache_factors_stops_at_failure[OF h1 h2 h3 h4 h5] h1 h2 h3 h4 h5
  show ?thesis by (intro conjI)
qed

text \<open>
  Claim C7, as stated, fails: with two strategies of which the first cannot be factorized
  and the second can, \<^verbatim>\<open>cache_factors\<close> raises the RuntimeError of the first and leaves
  an empty cache, with no entry for the second.
\<close>

theorem cache_factors_counterexample:
  "cache_factors cf_problem_data (cf_factorized 0) cf_opt
     = (Some RuntimeError, cf_opt\<lparr>solver_cache := Some []\<rparr>)
 \<and> cache_for cf_problem_data (cf_factorized 0) cf_opt [''s0'', ''s1''] 1
     = Inr \<lparr> factors = 1, inverse_data = (), chain = () \<rparr>"
  by code_simp

subsection \<open>Infeasible training points\<close>

lemma not_feasible_points_nonempty:
  "filter (\<lambda>(i, x). er_strategy x = None) (zip [0..<length results] results) \<noteq> []
     \<longleftrightarrow> \<not> list_all (\<lambda>r. er_strategy r \<noteq> None) results"
proof -
  have "set (map snd (zip [0..<length results] results)) = set results"
    by (simp add: map_snd_zip)
  then have "(\<exists>q \<in> set (zip [0..<length results] results). er_strategy (snd q) = None)
           \<longleftrightarrow> (\<exists>r \<in> set results. er_strategy r = None)"
    by (metis (no_types, lifting) image_iff set_map)
  then show ?thesis
    by (auto simp: filter_empty_conv list_all_iff case_prod_unfold)
qed

lemma use_new_data_infeasible:
  assumes "\<not> list_all (\<lambda>r. er_strategy r \<noteq> None) (env_solve_parametric env xs)"
  shows "use_new_data env opt xs
       = (Some ValueError, opt\<lparr>X_train := Some xs, y_train := None, encoding := None\<rparr>)"
  using assms not_feasible_points_nonempty[of "env_solve_parametric env xs"]
  by (simp add: use_new_data_def Let_def)

text \<open>
  Claim C8. When data \<^verbatim>\<open>X\<close> is given and the exact solve of some training point returns
  no strategy, \<^verbatim>\<open>get_samples\<close> raises ValueError, and so does \<^verbatim>\<open>train\<close>: the learner and
  the solver cache are left as they were, and (when no sampling function is given as
  well) the optimizer is left with the new \<^verbatim>\<open>X_train\<close> and without labels and
  encoding.
\<close>

theorem infeasible_training_point_aborts:
  assumes "\<not> list_all (\<lambda>r. er_strategy r \<noteq> None) (env_solve_parametric env xs)"
  shows "fst (get_samples env opt (Some xs) sampling_fn filter_strategies) = Some ValueError
       \<and> fst (train env problem_data factorized opt (Some xs) sampling_fn filter_strategies)
           = Some ValueError
       \<and> learner_of (snd (train env problem_data factorized opt (Some xs) sampling_fn
                             filter_strategies)) = learner_of opt
       \<and> solver_cache (snd (train env problem_data factorized opt (Some xs) sampling_fn
                             filter_strategies)) = solver_cache opt
       \<and> (sampling_fn = None \<longrightarrow>
            snd (train env problem_data factorized opt (Some xs) sampling_fn filter_strategies)
              = opt\<lparr>X_train := Some xs, y_train := None, encoding := None\<rparr>)"
proof -
  have g: "get_samples env opt (Some xs) sampling_fn filter_strategies
         = (Some ValueError,
            if sampling_fn = None
            then opt\<lparr>X_train := Some xs, y_train := None, encoding := None\<rparr> else opt)"
    using use_new_data_infeasible[OF assms, of opt]
    by (simp add: get_samples_def)
  then have t: "train env problem_data factorized opt (Some xs) sampling_fn filter_strategies
         = (Some ValueError,
            if sampling_fn = None
            then opt\<lparr>X_train := Some xs, y_train := None, encoding := None\<rparr> else opt)"
    by (simp add: train_def)
  show ?thesis unfolding g t by simp
qed

theorem infeasible_training_point_aborts_witness:
  "\<not> list_all (\<lambda>r. er_strategy r \<noteq> None) (env_solve_parametric train_env [1, 0, 2])
 \<and> fst (get_samples train_env cf_opt (Some [1, 0, 2]) None True) = Some ValueError
 \<and> fst (train train_env cf_problem_data (cf_factorized 5) cf_opt (Some [1, 0, 2]) None True)
     = Some ValueError
 \<and> learner_of (snd (train train_env cf_problem_data (cf_factorized 5) cf_opt (Some [1, 0, 2])
                       None True)) = learner_of cf_opt
 \<and> solver_cache (snd (train train_env cf_problem_data (cf_factorized 5) cf_opt (Some [1, 0, 2])
                         None True)) = solver_cache cf_opt
 \<and> snd (train train_env cf_problem_data (cf_factorized 5) cf_opt (Some [1, 0, 2]) None True)
     = cf_opt\<lparr>X_train := Some [1, 0, 2], y_train := None, encoding := None\<rparr>"
proof -
  have h: "\<not> list_all (\<lambda>r. er_strategy r \<noteq> None) (env_solve_parametric train_env [1, 0, 2])"
    by (simp add: train_env_def)
  from infeasible_training_point_aborts[OF h, of cf_opt "None :: unit option" True
      cf_problem_data "cf_factorized 5"] h
  show ?thesis by simp
qed

lemma train_feasible_value:
  "train train_env cf_problem_data (cf_factorized 5) cf_opt (Some [1, 2]) None True
     = (None, \<lparr> learner_of = Some \<lparr> n_best = 1, n_train = 2 \<rparr>, encoding = Some [''s0''],
                X_train = Some [1, 2], y_train = Some [0, 0], obj_train = Some [1, 1],
                solver_cache = Some [\<lparr> factors = 1, inverse_data = (), chain = () \<rparr>] \<rparr>)"
  by code_simp

text \<open>Filtering after sampling finds no \<^verbatim>\<open>obj_train\<close>; training on a frame without rows
  fails in \<^verbatim>\<open>n_features\<close>.\<close>

lemma get_samples_filter_without_obj_train:
  "get_samples (train_env\<lparr>env_sample := (\<lambda>g. ([1, 2], [0, 1], [''s0'', ''s1''])),
                          env_K_MAX_STRATEGIES := 1\<rparr>)
     (cf_opt\<lparr>X_train := None, y_train := None, encoding := None\<rparr>) None (Some ()) True
   = (Some AttributeError,
      cf_opt\<lparr>X_train := Some [1, 2], y_train := Some [0, 1], encoding := Some [''s0'', ''s1'']\<rparr>)"
  by code_simp

lemma train_without_rows:
  "fst (train train_env cf_problem_data (cf_factorized 5) cf_opt (Some []) None True)
     = Some IndexError"
  by code_simp

end
